theory Spec2Isabelle
  imports Complex_Main
begin

section \<open>Numbers, vectors and ray bundles\<close>

text \<open>
  The tracer computes on numpy \<^verbatim>\<open>float64\<close> arrays. The model idealises a finite float as
  a real number (no rounding, no overflow, no signed zero) and keeps the three special
  values that numpy's arithmetic produces instead of raising: dividing by zero yields an
  infinity or NaN (with a warning only), and every comparison with NaN is false.
\<close>

datatype fl = Fin real | PInf | NInf | NaN

definition fl_div :: "real \<Rightarrow> real \<Rightarrow> fl" where
  "fl_div x y =
     (if y \<noteq> 0 then Fin (x / y)
      else if 0 < x then PInf else if x < 0 then NInf else NaN)"

fun fl_neg :: "fl \<Rightarrow> fl" where
  "fl_neg (Fin x) = Fin (- x)"
| "fl_neg PInf = NInf"
| "fl_neg NInf = PInf"
| "fl_neg NaN = NaN"

fun fl_add :: "fl \<Rightarrow> fl \<Rightarrow> fl" where
  "fl_add (Fin x) (Fin y) = Fin (x + y)"
| "fl_add NaN _ = NaN"
| "fl_add _ NaN = NaN"
| "fl_add PInf NInf = NaN"
| "fl_add NInf PInf = NaN"
| "fl_add PInf _ = PInf"
| "fl_add _ PInf = PInf"
| "fl_add NInf _ = NInf"
| "fl_add _ NInf = NInf"

definition fl_sub :: "fl \<Rightarrow> fl \<Rightarrow> fl" where
  "fl_sub a b = fl_add a (fl_neg b)"

fun fl_mul :: "fl \<Rightarrow> fl \<Rightarrow> fl" where
  "fl_mul (Fin x) (Fin y) = Fin (x * y)"
| "fl_mul NaN _ = NaN"
| "fl_mul _ NaN = NaN"
| "fl_mul (Fin x) PInf = (if 0 < x then PInf else if x < 0 then NInf else NaN)"
| "fl_mul (Fin x) NInf = (if 0 < x then NInf else if x < 0 then PInf else NaN)"
| "fl_mul PInf (Fin y) = (if 0 < y then PInf else if y < 0 then NInf else NaN)"
| "fl_mul NInf (Fin y) = (if 0 < y then NInf else if y < 0 then PInf else NaN)"
| "fl_mul PInf PInf = PInf"
| "fl_mul PInf NInf = NInf"
| "fl_mul NInf PInf = NInf"
| "fl_mul NInf NInf = PInf"

text \<open>The comparisons the source makes: \<^verbatim>\<open>x > 0\<close>, \<^verbatim>\<open>x <= 0\<close>, \<^verbatim>\<open>x < y\<close> and \<^verbatim>\<open>N.isnan\<close>.\<close>

fun fl_gt0 :: "fl \<Rightarrow> bool" where
  "fl_gt0 (Fin x) = (0 < x)"
| "fl_gt0 PInf = True"
| "fl_gt0 NInf = False"
| "fl_gt0 NaN = False"

fun fl_le0 :: "fl \<Rightarrow> bool" where
  "fl_le0 (Fin x) = (x \<le> 0)"
| "fl_le0 PInf = False"
| "fl_le0 NInf = True"
| "fl_le0 NaN = False"

fun fl_lt :: "fl \<Rightarrow> fl \<Rightarrow> bool" where
  "fl_lt (Fin x) (Fin y) = (x < y)"
| "fl_lt NaN _ = False"
| "fl_lt _ NaN = False"
| "fl_lt _ NInf = False"
| "fl_lt PInf _ = False"
| "fl_lt NInf _ = True"
| "fl_lt _ PInf = True"

fun isnan :: "fl \<Rightarrow> bool" where
  "isnan NaN = True"
| "isnan _ = False"

type_synonym vec = "real \<times> real \<times> real"
type_synonym fvec = "fl \<times> fl \<times> fl"

definition lift :: "vec \<Rightarrow> fvec" where
  "lift v = (case v of (x, y, z) \<Rightarrow> (Fin x, Fin y, Fin z))"

definition fv_sub :: "fvec \<Rightarrow> fvec \<Rightarrow> fvec" where
  "fv_sub a b =
     (case a of (a0, a1, a2) \<Rightarrow> case b of (b0, b1, b2) \<Rightarrow>
        (fl_sub a0 b0, fl_sub a1 b1, fl_sub a2 b2))"

text \<open>\<^verbatim>\<open>N.vdot\<close> of two 3-vectors.\<close>

definition vdot :: "fvec \<Rightarrow> fvec \<Rightarrow> fl" where
  "vdot a b =
     (case a of (a0, a1, a2) \<Rightarrow> case b of (b0, b1, b2) \<Rightarrow>
        fl_add (fl_add (fl_mul a0 b0) (fl_mul a1 b1)) (fl_mul a2 b2))"

text \<open>
  A ray bundle holds parallel arrays whose column \<open>i\<close> describes ray \<open>i\<close>; the model keeps
  the columns together, one record per ray, so a bundle is the list of its rays and
  \<^verbatim>\<open>get_num_rays()\<close> is its length.
\<close>

record ray =
  vertex :: vec
  direction :: vec
  energy :: real
  parent :: nat

type_synonym ray_bundle = "ray list"

text \<open>\<^verbatim>\<open>v[:,ray] + d[:,ray]*t\<close>: the point of the ray at parameter \<open>t\<close>.\<close>

definition point_at :: "ray \<Rightarrow> fl \<Rightarrow> fvec" where
  "point_at ry t =
     (case vertex ry of (v0, v1, v2) \<Rightarrow> case direction ry of (d0, d1, d2) \<Rightarrow>
        (fl_add (Fin v0) (fl_mul (Fin d0) t),
         fl_add (Fin v1) (fl_mul (Fin d1) t),
         fl_add (Fin v2) (fl_mul (Fin d2) t)))"

text \<open>
  Python values that end up in a surface's slots or are bound to a name: \<^verbatim>\<open>None\<close>, a
  3-vector, a two-dimensional array, and any other object (a module, a class, an
  instance), told apart by a label. Then the exceptions the code raises.
\<close>

datatype pyval = PyNone | PyVec vec | PyMat "real list list" | PyObj string

datatype pyerror = ValueError | NameError string | AttributeError | TypeError

section \<open>Surface, UniformSurface: construction and setters\<close>

text \<open>
  \<^verbatim>\<open>Surface.__init__(self, geometry, optics, location=None, rotation=None)\<close> hands
  \<open>location\<close> and \<open>rotation\<close> to the frame base class and stores the other two. The base
  class \<^verbatim>\<open>HasFrame\<close> is outside the inspected sources; the fields \<open>frame_location\<close> and
  \<open>frame_rotation\<close> record what its constructor received. An attribute that no statement
  has assigned yet is \<open>None\<close> in an option-valued field.
\<close>

record Surface =
  frame_location :: pyval
  frame_rotation :: pyval
  self_geom :: pyval
  self_opt :: pyval
  self_current_bundle :: "ray_bundle option"

definition Surface_init :: "pyval \<Rightarrow> pyval \<Rightarrow> pyval \<Rightarrow> pyval \<Rightarrow> Surface" where
  "Surface_init geometry optics location rotation =
     \<lparr>frame_location = location, frame_rotation = rotation,
      self_geom = geometry, self_opt = optics, self_current_bundle = None\<rparr>"

record UniformSurface = Surface +
  self_absorpt :: real
  mirror :: bool

text \<open>\<^verbatim>\<open>if not 0 <= absorptivity <= 1: raise ValueError(...)\<close>\<close>

definition set_absorptivity ::
  "'a UniformSurface_scheme \<Rightarrow> real \<Rightarrow> pyerror + 'a UniformSurface_scheme" where
  "set_absorptivity self absorptivity =
     (if \<not> (0 \<le> absorptivity \<and> absorptivity \<le> 1) then Inl ValueError
      else Inr (self\<lparr>self_absorpt := absorptivity\<rparr>))"

text \<open>
  \<^verbatim>\<open>UniformSurface.__init__(self, location=None, rotation=None, absorptivity=0., mirror=True)\<close>
  calls \<^verbatim>\<open>Surface.__init__(self, location, rotation)\<close>: two positional arguments, which bind
  to the first two parameters of \<open>Surface_init\<close>, the other two taking their defaults.
  The absorptivity slot has no value before the setter runs; the initial \<open>0\<close> below is
  overwritten or the construction fails.
\<close>

definition UniformSurface_init :: "pyval \<Rightarrow> pyval \<Rightarrow> real \<Rightarrow> bool \<Rightarrow> pyerror + UniformSurface" where
  "UniformSurface_init location rotation absorptivity mirror_arg =
     (case set_absorptivity
             (Surface.extend (Surface_init location rotation PyNone PyNone)
                (UniformSurface.fields 0 False)) absorptivity of
        Inl e \<Rightarrow> Inl e
      | Inr self \<Rightarrow> Inr (self\<lparr>mirror := mirror_arg\<rparr>))"

section \<open>SphereSurface: the scalar reference solver\<close>

record SphereSurface = UniformSurface +
  self_rad :: real
  self_center :: pyval
  self_boundary :: "(fvec \<Rightarrow> bool) option"
  self_vertices :: "fvec option list option"
  self_norm :: "fvec list option"

text \<open>
  \<^verbatim>\<open>if rad <= 0: raise ValuError("Radius must be positive")\<close>: the name in the
  \<^verbatim>\<open>raise\<close> statement is bound nowhere, so evaluating it raises \<^verbatim>\<open>NameError\<close>.
\<close>

definition set_radius :: "SphereSurface \<Rightarrow> real \<Rightarrow> pyerror + SphereSurface" where
  "set_radius self rad =
     (if rad \<le> 0 then Inl (NameError ''ValuError'')
      else Inr (self\<lparr>self_rad := rad\<rparr>))"

text \<open>
  \<^verbatim>\<open>SphereSurface.__init__(self, center=None, absorptivity=0., radius=1., boundary=None)\<close>:
  \<^verbatim>\<open>UniformSurface.__init__(self, center, None, absorptivity)\<close>, then the radius setter,
  then the two private attributes.
\<close>

definition SphereSurface_init ::
  "pyval \<Rightarrow> real \<Rightarrow> real \<Rightarrow> (fvec \<Rightarrow> bool) option \<Rightarrow> pyerror + SphereSurface" where
  "SphereSurface_init center absorptivity radius boundary =
     (case UniformSurface_init center PyNone absorptivity True of
        Inl e \<Rightarrow> Inl e
      | Inr u \<Rightarrow>
          (case set_radius
                  (UniformSurface.extend u (SphereSurface.fields 0 PyNone None None None)) radius of
             Inl e \<Rightarrow> Inl e
           | Inr self \<Rightarrow> Inr (self\<lparr>self_center := center, self_boundary := boundary\<rparr>)))"

text \<open>The coefficients of the quadratic in the ray parameter, lines 58 to 64 of the loop body.\<close>

definition sphere_ABC :: "vec \<Rightarrow> real \<Rightarrow> ray \<Rightarrow> real \<times> real \<times> real" where
  "sphere_ABC c r ry =
     (case direction ry of (d0, d1, d2) \<Rightarrow> case vertex ry of (v0, v1, v2) \<Rightarrow>
      case c of (c0, c1, c2) \<Rightarrow>
        (d0\<^sup>2 + d1\<^sup>2 + d2\<^sup>2,
         2 * (d0 * (v0 - c0) + d1 * (v1 - c1) + d2 * (v2 - c2)),
         (v0 - c0)\<^sup>2 + (v1 - c1)\<^sup>2 + (v2 - c2)\<^sup>2 - r\<^sup>2))"

text \<open>The three lists the loop appends to. A \<open>None\<close> vertex is an \<^verbatim>\<open>N.empty([3,1])\<close> block.\<close>

record acc =
  params :: "fl list"
  vertices :: "fvec option list"
  norm :: "fvec list"

text \<open>\<^verbatim>\<open>N.where(hits > 0)\<close> on the two roots: the indices of the positive ones, ascending.\<close>

definition where_positive :: "fl \<times> fl \<Rightarrow> nat list" where
  "where_positive hits =
     (if fl_gt0 (fst hits) then [0] else []) @ (if fl_gt0 (snd hits) then [1] else [])"

text \<open>\<^verbatim>\<open>N.argmin(hits)\<close>: the index of the first smallest entry.\<close>

definition argmin :: "fl \<times> fl \<Rightarrow> nat" where
  "argmin hits = (if fl_lt (snd hits) (fst hits) then 1 else 0)"

definition pick :: "nat \<Rightarrow> 'a \<times> 'a \<Rightarrow> 'a" where
  "pick i p = (if i = 0 then fst p else snd p)"

text \<open>
  One iteration of the loop of \<^verbatim>\<open>register_incoming\<close>. Indexing the center raises
  \<^verbatim>\<open>TypeError\<close> when no center was given, and asking an absent boundary for
  \<^verbatim>\<open>in_bounds\<close> raises \<^verbatim>\<open>AttributeError\<close>.
\<close>

definition register_ray ::
  "pyval \<Rightarrow> real \<Rightarrow> (fvec \<Rightarrow> bool) option \<Rightarrow> ray \<Rightarrow> acc \<Rightarrow> pyerror + acc" where
  "register_ray center r boundary ry a =
     (case center of
        PyVec c \<Rightarrow>
          (case sphere_ABC c r ry of (A, B, C) \<Rightarrow>
             if B\<^sup>2 - 4 * A * C < 0 then Inr (a\<lparr>params := params a @ [PInf]\<rparr>)
             else
               let t0 = fl_div (- B - sqrt (B\<^sup>2 - 4 * A * C)) (2 * A);
                   t1 = fl_div (- B + sqrt (B\<^sup>2 - 4 * A * C)) (2 * A);
                   coords = (point_at ry t0, point_at ry t1);
                   hits = (t0, t1);
                   is_positive = where_positive hits
               in if length is_positive = 0
                  then Inr (a\<lparr>params := params a @ [PInf], vertices := vertices a @ [None]\<rparr>)
                  else
                    let param = (if length is_positive = 2 then argmin hits else hd is_positive);
                        verts = pick param coords;
                        dot = vdot (fv_sub (lift c) verts) (fv_sub verts (lift (vertex ry)));
                        normal = (if fl_le0 dot then fv_sub (lift c) verts
                                  else fv_sub verts (lift c))
                    in (case boundary of
                          None \<Rightarrow> Inl AttributeError
                        | Some in_bounds \<Rightarrow>
                            if in_bounds verts
                            then Inr (a\<lparr>params := params a @ [pick param hits],
                                        vertices := vertices a @ [Some verts],
                                        norm := norm a @ [normal]\<rparr>)
                            else Inr (a\<lparr>params := params a @ [PInf],
                                        vertices := vertices a @ [None]\<rparr>)))
      | _ \<Rightarrow> Inl TypeError)"

fun register_loop ::
  "pyval \<Rightarrow> real \<Rightarrow> (fvec \<Rightarrow> bool) option \<Rightarrow> ray list \<Rightarrow> acc \<Rightarrow> pyerror + acc" where
  "register_loop center r boundary [] a = Inr a"
| "register_loop center r boundary (ry # rays) a =
     (case register_ray center r boundary ry a of
        Inl e \<Rightarrow> Inl e
      | Inr a' \<Rightarrow> register_loop center r boundary rays a')"

text \<open>
  \<^verbatim>\<open>SphereSurface.register_incoming\<close>: the loop, then the storage of the gathered
  vertices, the bundle and the normals, and the parameter list as the result. An
  exception inside the loop leaves the surface as it was.
\<close>

definition register_incoming ::
  "SphereSurface \<Rightarrow> ray_bundle \<Rightarrow> pyerror + (SphereSurface \<times> fl list)" where
  "register_incoming self bundle =
     (case register_loop (self_center self) (self_rad self) (self_boundary self) bundle
             \<lparr>params = [], vertices = [], norm = []\<rparr> of
        Inl e \<Rightarrow> Inl e
      | Inr a \<Rightarrow>
          Inr (self\<lparr>self_vertices := Some (vertices a),
                    self_current_bundle := Some bundle,
                    self_norm := Some (norm a)\<rparr>, params a))"


section \<open>Name resolution and boolean indexing\<close>

text \<open>
  A bare name in a method body is looked up among the method's local variables, then in
  the globals of its module (the built-in names come last; none of the names looked up
  below is a built-in of Python 2). A name found nowhere raises \<^verbatim>\<open>NameError\<close>.
\<close>

definition lookup_name ::
  "(string \<times> pyval) list \<Rightarrow> (string \<times> pyval) list \<Rightarrow> string \<Rightarrow> pyerror + pyval" where
  "lookup_name locals globals name =
     (case map_of (locals @ globals) name of
        None \<Rightarrow> Inl (NameError name)
      | Some v \<Rightarrow> Inr v)"

text \<open>The names that the module-level statements of \<^verbatim>\<open>surface.py\<close> bind.\<close>

definition surface_globals :: "(string \<times> pyval) list" where
  "surface_globals =
     [(''N'', PyObj ''numpy''), (''HasFrame'', PyObj ''HasFrame''),
      (''Surface'', PyObj ''Surface''), (''UniformSurface'', PyObj ''UniformSurface'')]"

text \<open>The names that the module-level statements of \<^verbatim>\<open>sphere_surface.py\<close> bind.\<close>

definition sphere_surface_globals :: "(string \<times> pyval) list" where
  "sphere_surface_globals =
     [(''UniformSurface'', PyObj ''UniformSurface''), (''optics'', PyObj ''optics''),
      (''RayBundle'', PyObj ''RayBundle''), (''BoundarySphere'', PyObj ''BoundarySphere''),
      (''N'', PyObj ''numpy''), (''SphereSurface'', PyObj ''SphereSurface'')]"

text \<open>\<^verbatim>\<open>a[msk]\<close>, and \<^verbatim>\<open>a[:,msk]\<close> on columns: the entries where the mask is true.\<close>

definition bool_index :: "bool list \<Rightarrow> 'a list \<Rightarrow> 'a list" where
  "bool_index msk xs = map snd (filter fst (zip msk xs))"

text \<open>Subscripting a value that a name is bound to; only arrays can be subscripted.\<close>

fun py_subscript :: "pyval \<Rightarrow> bool list \<Rightarrow> pyerror + pyval" where
  "py_subscript (PyMat m) msk = Inr (PyMat (map (bool_index msk) m))"
| "py_subscript (PyVec v) msk =
     (case v of (x, y, z) \<Rightarrow> Inr (PyMat [bool_index msk [x, y, z]]))"
| "py_subscript PyNone msk = Inl TypeError"
| "py_subscript (PyObj n) msk = Inl TypeError"

section \<open>Surface.register_incoming\<close>

text \<open>
  \<^verbatim>\<open>self._current_bundle = ray_bundle\<close>, then
  \<^verbatim>\<open>return self._geom.find_intersections(frame, ray_bundle)\<close>. Python evaluates the callee
  first, then the arguments, then calls. Which objects have a \<^verbatim>\<open>find_intersections\<close>
  method, and what it computes, is the parameter \<open>find_method\<close>. The assignment has
  happened when the exception propagates, so the surface is returned in both cases.
\<close>

definition Surface_register_incoming ::
  "(pyval \<Rightarrow> (pyval \<Rightarrow> ray_bundle \<Rightarrow> pyerror + fl list) option) \<Rightarrow>
   'a Surface_scheme \<Rightarrow> ray_bundle \<Rightarrow> 'a Surface_scheme \<times> (pyerror + fl list)" where
  "Surface_register_incoming find_method self bundle =
     (let self' = self\<lparr>self_current_bundle := Some bundle\<rparr>
      in case find_method (self_geom self') of
           None \<Rightarrow> (self', Inl AttributeError)
         | Some find_intersections_of_geom \<Rightarrow>
             (case lookup_name [(''self'', PyObj ''self''), (''ray_bundle'', PyObj ''ray_bundle'')]
                     surface_globals ''frame'' of
                Inl e \<Rightarrow> (self', Inl e)
              | Inr frame \<Rightarrow> (self', find_intersections_of_geom frame bundle)))"

section \<open>SphereSurface.get_outgoing\<close>

record RayBundle =
  bundle_vertices :: "fvec option list"
  bundle_directions :: "fvec list"
  bundle_energy :: pyval
  bundle_parent :: pyval

text \<open>
  The reflection law \<^verbatim>\<open>optics.reflections\<close> belongs to a collaborator and is a
  parameter. The method passes it the selected incoming directions and the whole stored
  normal array, then reads the bare names \<^verbatim>\<open>parent\<close> and \<^verbatim>\<open>energy\<close>.
\<close>

definition get_outgoing ::
  "(vec list \<Rightarrow> fvec list \<Rightarrow> pyerror + fvec list) \<Rightarrow> SphereSurface \<Rightarrow> bool list \<Rightarrow>
   pyerror + RayBundle" where
  "get_outgoing reflections self selector =
     (case self_current_bundle self of
        None \<Rightarrow> Inl AttributeError
      | Some cb \<Rightarrow>
     (case self_norm self of
        None \<Rightarrow> Inl AttributeError
      | Some nrm \<Rightarrow>
     (case reflections (bool_index selector (map direction cb)) nrm of
        Inl e \<Rightarrow> Inl e
      | Inr dirs \<Rightarrow>
     (let locals = [(''self'', PyObj ''self''), (''selector'', PyObj ''selector''),
                    (''dirs'', PyObj ''dirs'')]
      in case lookup_name locals sphere_surface_globals ''parent'' of
        Inl e \<Rightarrow> Inl e
      | Inr parent_val \<Rightarrow>
     (case py_subscript parent_val selector of
        Inl e \<Rightarrow> Inl e
      | Inr new_parent \<Rightarrow>
     (case self_vertices self of
        None \<Rightarrow> Inl AttributeError
      | Some verts \<Rightarrow>
     (case lookup_name ((''new_parent'', new_parent) # (''outg'', PyObj ''outg'') # locals)
             sphere_surface_globals ''energy'' of
        Inl e \<Rightarrow> Inl e
      | Inr energy_val \<Rightarrow>
     (case py_subscript energy_val selector of
        Inl e \<Rightarrow> Inl e
      | Inr new_energy \<Rightarrow>
          Inr \<lparr>bundle_vertices = bool_index selector verts,
               bundle_directions = dirs,
               bundle_energy = new_energy,
               bundle_parent = new_parent\<rparr>))))))))"

section \<open>QuadricGM: the batched solver\<close>

text \<open>Assigning through a boolean mask: one value to every selected slot, or a value each.\<close>

definition mask_fill :: "'a list \<Rightarrow> bool list \<Rightarrow> 'a \<Rightarrow> 'a list" where
  "mask_fill xs msk v = map (\<lambda>(x, m). if m then v else x) (zip xs msk)"

text \<open>
  \<^verbatim>\<open>xs[msk] = vs\<close> hands the values out to the selected slots in order. numpy rejects a
  value array of the wrong size; the callers below always pass as many values as there
  are selected slots, and a slot for which the values have run out keeps its content.
\<close>

fun mask_put :: "'a list \<Rightarrow> bool list \<Rightarrow> 'a list \<Rightarrow> 'a list" where
  "mask_put [] msk vs = []"
| "mask_put (x # xs) [] vs = x # xs"
| "mask_put (x # xs) (False # msk) vs = x # mask_put xs msk vs"
| "mask_put (x # xs) (True # msk) [] = x # mask_put xs msk []"
| "mask_put (x # xs) (True # msk) (v # vs) = v # mask_put xs msk vs"

text \<open>
  \<^verbatim>\<open>N.nonzero(m)[0]\<close> for a boolean array of two rows, given by its columns: the row
  index of every true entry, in row-major order, so row 0's entries come first.
\<close>

definition nonzero_rows :: "(bool \<times> bool) list \<Rightarrow> nat list" where
  "nonzero_rows cols = map (\<lambda>_. 0) (filter fst cols) @ map (\<lambda>_. 1) (filter snd cols)"

text \<open>
  \<^verbatim>\<open>QuadricGM._select_coords(coords, prm)\<close>; \<open>prm\<close> is the 2-by-n array of roots, a pair
  per column, and \<open>coords\<close> is not used by the default policy. \<^verbatim>\<open>N.empty\<close> returns
  storage that nothing has written: \<open>junk i\<close> is what slot \<open>i\<close> of the fresh \<open>select\<close>
  array happens to hold.
\<close>

definition select_coords :: "(fl \<times> fl) list \<Rightarrow> (nat \<Rightarrow> fl) \<Rightarrow> fl list" where
  "select_coords prm junk =
     (let is_positive = map (\<lambda>(t0, t1). (fl_gt0 t0, fl_gt0 t1)) prm;
          select0 = map junk [0..<length prm];
          select1 = mask_fill select0 (map (\<lambda>(p, q). p \<or> q) is_positive) NaN;
          select2 = mask_fill select1 (map (\<lambda>(p, q). p \<and> q) is_positive) (Fin 0);
          one_pos = map (\<lambda>(p, q). p \<noteq> q) is_positive
      in mask_put select2 one_pos
           (map (\<lambda>r. Fin (real r)) (nonzero_rows (bool_index one_pos is_positive))))"

text \<open>
  \<^verbatim>\<open>N.int_\<close> truncates a finite float towards zero. Converting an infinity or NaN
  has no defined result; the usual hardware yields the most negative integer.
\<close>

fun np_int :: "fl \<Rightarrow> int" where
  "np_int (Fin x) = (if 0 \<le> x then \<lfloor>x\<rfloor> else \<lceil>x\<rceil>)"
| "np_int _ = - (2 ^ 63)"

text \<open>\<^verbatim>\<open>N.choose(select, hits)\<close> over two rows: an index other than 0 or 1 raises.\<close>

definition np_choose :: "int list \<Rightarrow> (fl \<times> fl) list \<Rightarrow> pyerror + fl list" where
  "np_choose sel cols =
     (if list_all (\<lambda>k. k = 0 \<or> k = 1) sel
      then Inr (map (\<lambda>(k, p). pick (nat k) p) (zip sel cols))
      else Inl ValueError)"

text \<open>The roots of one column with a real solution, lines 45 to 50.\<close>

definition column_hits :: "real \<times> real \<times> real \<Rightarrow> real \<Rightarrow> fl \<times> fl" where
  "column_hits abc delta =
     (case abc of (A, B, C) \<Rightarrow>
        if A \<le> 1 / 10 ^ 10 then (fl_div (- C) B, fl_div (- C) B)
        else (fl_div (- B - delta) (2 * A), fl_div (- B + delta) (2 * A)))"

text \<open>
  \<^verbatim>\<open>QuadricGM.find_intersections\<close>, as far as the returned parameter array goes. The
  coefficient hook \<^verbatim>\<open>get_ABC\<close> of the subclass is the parameter \<open>get_ABC\<close>, applied per
  ray. \<open>junk_hits i\<close> and \<open>junk_select i\<close> are the contents of column \<open>i\<close> of the
  fresh \<^verbatim>\<open>N.empty\<close> arrays \<open>hits\<close> and \<open>select\<close>. The stored vertices and normals need
  the subclass's normal formula and the frame, and are not part of this model.
\<close>

definition find_intersections ::
  "(ray \<Rightarrow> real \<times> real \<times> real) \<Rightarrow> ray_bundle \<Rightarrow> (nat \<Rightarrow> fl \<times> fl) \<Rightarrow> (nat \<Rightarrow> fl) \<Rightarrow>
   pyerror + fl list" where
  "find_intersections get_ABC bundle junk_hits junk_select =
     (let n = length bundle;
          params0 = replicate n PInf;
          abc = map get_ABC bundle;
          delta = map (\<lambda>(A, B, C). B\<^sup>2 - 4 * A * C) abc;
          any_inters = map (\<lambda>x. 0 \<le> x) delta;
          delta' = map (\<lambda>x. if 0 \<le> x then sqrt x else x) delta;
          hits = map (\<lambda>(i, abc_i, inters_i, delta_i).
                        if inters_i then column_hits abc_i delta_i else junk_hits i)
                   (zip [0..<n] (zip abc (zip any_inters delta')));
          select = select_coords hits junk_select;
          missed_anyway = map isnan select;
          any_inters' = map (\<lambda>(a, m). a \<and> \<not> m) (zip any_inters missed_anyway);
          select' = map np_int (bool_index any_inters' select)
      in case np_choose select' (bool_index any_inters' hits) of
           Inl e \<Rightarrow> Inl e
         | Inr chosen \<Rightarrow> Inr (mask_put params0 any_inters' chosen))"


section \<open>Per-ray views of the two solvers\<close>

text \<open>
  Names for the quantities the properties speak about: the discriminant of a coefficient
  triple, the two roots of the scalar loop body, the index its selection rule picks, and
  the parameter it appends for one ray when a center and a boundary are present. The
  lemmas \<open>register_ray_params\<close> and \<open>register_loop_params\<close> below tie the last one to
  the loop.
\<close>

definition discr :: "real \<times> real \<times> real \<Rightarrow> real" where
  "discr abc = (case abc of (A, B, C) \<Rightarrow> B\<^sup>2 - 4 * A * C)"

definition sphere_hits :: "vec \<Rightarrow> real \<Rightarrow> ray \<Rightarrow> fl \<times> fl" where
  "sphere_hits c r ry =
     (case sphere_ABC c r ry of (A, B, C) \<Rightarrow>
        (fl_div (- B - sqrt (B\<^sup>2 - 4 * A * C)) (2 * A),
         fl_div (- B + sqrt (B\<^sup>2 - 4 * A * C)) (2 * A)))"

definition selected_index :: "fl \<times> fl \<Rightarrow> nat" where
  "selected_index hits =
     (if length (where_positive hits) = 2 then argmin hits else hd (where_positive hits))"

definition scalar_param :: "vec \<Rightarrow> real \<Rightarrow> (fvec \<Rightarrow> bool) \<Rightarrow> ray \<Rightarrow> fl" where
  "scalar_param c r in_bounds ry =
     (if discr (sphere_ABC c r ry) < 0 then PInf
      else if where_positive (sphere_hits c r ry) = [] then PInf
      else if in_bounds (point_at ry
                (pick (selected_index (sphere_hits c r ry)) (sphere_hits c r ry)))
           then pick (selected_index (sphere_hits c r ry)) (sphere_hits c r ry)
           else PInf)"

text \<open>The empty lists the loop starts from.\<close>

definition acc0 :: acc where
  "acc0 = \<lparr>params = [], vertices = [], norm = []\<rparr>"


text \<open>
  The batched solver seen column by column: the root pair of column \<open>i\<close> (computed when
  the discriminant is not negative, left as found otherwise), the whole \<open>hits\<close> array,
  and the mask \<open>any_inters\<close> after the columns whose selection is NaN have been removed.
  \<open>find_intersections_unfold\<close> below shows that these are the arrays of
  \<open>find_intersections\<close>.
\<close>

definition batched_hits ::
  "(ray \<Rightarrow> real \<times> real \<times> real) \<Rightarrow> (nat \<Rightarrow> fl \<times> fl) \<Rightarrow> nat \<Rightarrow> ray \<Rightarrow> fl \<times> fl" where
  "batched_hits get_ABC junk_hits i ry =
     (if 0 \<le> discr (get_ABC ry)
      then column_hits (get_ABC ry) (sqrt (discr (get_ABC ry)))
      else junk_hits i)"

definition hits_array ::
  "(ray \<Rightarrow> real \<times> real \<times> real) \<Rightarrow> ray_bundle \<Rightarrow> (nat \<Rightarrow> fl \<times> fl) \<Rightarrow> (fl \<times> fl) list" where
  "hits_array get_ABC bundle junk_hits =
     map (\<lambda>i. batched_hits get_ABC junk_hits i (bundle ! i)) [0..<length bundle]"

definition still_inters ::
  "(ray \<Rightarrow> real \<times> real \<times> real) \<Rightarrow> ray_bundle \<Rightarrow> fl list \<Rightarrow> bool list" where
  "still_inters get_ABC bundle select =
     map (\<lambda>i. 0 \<le> discr (get_ABC (bundle ! i)) \<and> \<not> isnan (select ! i)) [0..<length bundle]"

text \<open>
  A ray counts as an accepted hit when the loop body appends a normal for it: a real
  solution, a positive root, and a selected point inside the boundary. The sidedness
  of a point is the dot product the loop body tests before it chooses the normal.
\<close>

definition accepted_hit :: "vec \<Rightarrow> real \<Rightarrow> (fvec \<Rightarrow> bool) \<Rightarrow> ray \<Rightarrow> bool" where
  "accepted_hit c r in_bounds ry =
     (0 \<le> discr (sphere_ABC c r ry) \<and> where_positive (sphere_hits c r ry) \<noteq> [] \<and>
      in_bounds (point_at ry (pick (selected_index (sphere_hits c r ry)) (sphere_hits c r ry))))"

definition sidedness :: "vec \<Rightarrow> ray \<Rightarrow> fvec \<Rightarrow> fl" where
  "sidedness c ry p = vdot (fv_sub (lift c) p) (fv_sub p (lift (vertex ry)))"

text \<open>
  Squared distance between two points, and the point of a ray at a finite parameter;
  \<open>point_at_Fin\<close> below relates the latter to \<open>point_at\<close>.
\<close>

definition dist2 :: "vec \<Rightarrow> vec \<Rightarrow> real" where
  "dist2 p q =
     (case p of (p0, p1, p2) \<Rightarrow> case q of (q0, q1, q2) \<Rightarrow>
        (p0 - q0)\<^sup>2 + (p1 - q1)\<^sup>2 + (p2 - q2)\<^sup>2)"

definition along :: "ray \<Rightarrow> real \<Rightarrow> vec" where
  "along ry t =
     (case vertex ry of (v0, v1, v2) \<Rightarrow> case direction ry of (d0, d1, d2) \<Rightarrow>
        (v0 + d0 * t, v1 + d1 * t, v2 + d2 * t))"

text \<open>The fixtures of the concrete scenarios: the unit sphere at the origin, with a
  boundary that accepts every point, and a ray given by its vertex and direction.\<close>

definition unit_sphere :: SphereSurface where
  "unit_sphere =
     \<lparr>frame_location = PyNone, frame_rotation = PyNone,
      self_geom = PyVec (0, 0, 0), self_opt = PyNone, self_current_bundle = None,
      self_absorpt = 0, mirror = True,
      self_rad = 1, self_center = PyVec (0, 0, 0), self_boundary = Some (\<lambda>p. True),
      self_vertices = None, self_norm = None\<rparr>"

definition mk_ray :: "vec \<Rightarrow> vec \<Rightarrow> ray" where
  "mk_ray v d = \<lparr>vertex = v, direction = d, energy = 1, parent = 0\<rparr>"

section \<open>Validation in the setters\<close>

lemmas record_ctor_defs =
  Surface.extend_def UniformSurface.extend_def UniformSurface.fields_def
  SphereSurface.fields_def

lemma set_radius_nonpositive:
  "rad \<le> 0 \<Longrightarrow> set_radius self rad = Inl (NameError ''ValuError'')"
  by (simp add: set_radius_def)

lemma set_radius_positive:
  "0 < rad \<Longrightarrow> set_radius self rad = Inr (self\<lparr>self_rad := rad\<rparr>)"
  by (simp add: set_radius_def)

lemma set_absorptivity_accepts_iff:
  "(\<exists>u'. set_absorptivity u a = Inr u') \<longleftrightarrow> 0 \<le> a \<and> a \<le> 1"
  by (auto simp add: set_absorptivity_def)

lemma set_absorptivity_rejects:
  "a < 0 \<or> 1 < a \<Longrightarrow> set_absorptivity u a = Inl ValueError"
  by (auto simp add: set_absorptivity_def)

text \<open>
  C7. The radius setter is meant to raise a validation error for a radius of 0 or
  below. On the code it raises \<^verbatim>\<open>NameError\<close> instead, because the exception class in its
  \<^verbatim>\<open>raise\<close> statement is misspelt; a positive radius is stored. The absorptivity setter
  raises \<^verbatim>\<open>ValueError\<close> at 1.5 and at -0.1 and stores exactly 0 and exactly 1.
\<close>

theorem set_radius_misspelt_exception:
  "set_radius self 0 = Inl (NameError ''ValuError'') \<and>
   set_radius self (- 1) = Inl (NameError ''ValuError'') \<and>
   set_radius self 0 \<noteq> Inl ValueError \<and>
   set_radius self 2 = Inr (self\<lparr>self_rad := 2\<rparr>) \<and>
   set_absorptivity u (3 / 2) = Inl ValueError \<and>
   set_absorptivity u (- 1 / 10) = Inl ValueError \<and>
   set_absorptivity u 0 = Inr (u\<lparr>self_absorpt := 0\<rparr>) \<and>
   set_absorptivity u 1 = Inr (u\<lparr>self_absorpt := 1\<rparr>)"
  by (simp add: set_radius_def set_absorptivity_def)

section \<open>Construction\<close>

text \<open>
  C10. Whenever the arguments pass validation, \<^verbatim>\<open>UniformSurface(location, rotation,
  absorptivity, mirror)\<close> stores \<open>location\<close> in the geometry-manager slot and \<open>rotation\<close>
  in the optics slot, and the frame base class receives neither; and
  \<^verbatim>\<open>SphereSurface(center, absorptivity, radius, boundary)\<close> stores \<open>center\<close> as the
  geometry manager and \<^verbatim>\<open>None\<close> as the optics manager.
\<close>

theorem init_positional_slots:
  assumes "0 \<le> absorptivity" and "absorptivity \<le> 1" and "0 < radius"
  shows "UniformSurface_init location rotation absorptivity m =
           Inr \<lparr>frame_location = PyNone, frame_rotation = PyNone,
                self_geom = location, self_opt = rotation, self_current_bundle = None,
                self_absorpt = absorptivity, mirror = m\<rparr> \<and>
         SphereSurface_init center absorptivity radius boundary =
           Inr \<lparr>frame_location = PyNone, frame_rotation = PyNone,
                self_geom = center, self_opt = PyNone, self_current_bundle = None,
                self_absorpt = absorptivity, mirror = True,
                self_rad = radius, self_center = center, self_boundary = boundary,
                self_vertices = None, self_norm = None\<rparr>"
  using assms
  by (simp add: SphereSurface_init_def UniformSurface_init_def Surface_init_def
      set_absorptivity_def set_radius_def record_ctor_defs)

theorem init_positional_slots_witness:
  "(0::real) \<le> 1 / 2 \<and> (1::real) / 2 \<le> 1 \<and> (0::real) < 2 \<and>
   UniformSurface_init (PyVec (1, 2, 3)) (PyMat [[1, 0, 0], [0, 1, 0], [0, 0, 1]]) (1 / 2) False =
     Inr \<lparr>frame_location = PyNone, frame_rotation = PyNone,
          self_geom = PyVec (1, 2, 3), self_opt = PyMat [[1, 0, 0], [0, 1, 0], [0, 0, 1]],
          self_current_bundle = None, self_absorpt = 1 / 2, mirror = False\<rparr> \<and>
   SphereSurface_init (PyVec (1, 2, 3)) (1 / 2) 2 None =
     Inr \<lparr>frame_location = PyNone, frame_rotation = PyNone,
          self_geom = PyVec (1, 2, 3), self_opt = PyNone, self_current_bundle = None,
          self_absorpt = 1 / 2, mirror = True,
          self_rad = 2, self_center = PyVec (1, 2, 3), self_boundary = None,
          self_vertices = None, self_norm = None\<rparr>"
  using init_positional_slots [of "1 / 2" 2 "PyVec (1, 2, 3)"
      "PyMat [[1, 0, 0], [0, 1, 0], [0, 0, 1]]" False "PyVec (1, 2, 3)" None]
  by simp

lemma unit_sphere_constructed:
  "SphereSurface_init (PyVec (0, 0, 0)) 0 1 (Some (\<lambda>p. True)) = Inr unit_sphere"
  by (simp add: SphereSurface_init_def UniformSurface_init_def Surface_init_def
      set_absorptivity_def set_radius_def record_ctor_defs unit_sphere_def)

section \<open>The dispatch wrapper\<close>

text \<open>
  C4. \<^verbatim>\<open>Surface.register_incoming\<close> is meant to store the bundle and return what the
  geometry manager's \<^verbatim>\<open>find_intersections\<close> computes for the surface's frame and the
  bundle. On the code the bundle is stored, and then the call never takes place: the
  argument \<^verbatim>\<open>frame\<close> is an unbound name, so \<^verbatim>\<open>NameError\<close> is raised (or
  \<^verbatim>\<open>AttributeError\<close>, when the geometry slot holds an object without that method).
\<close>

theorem Surface_register_incoming_raises:
  "Surface_register_incoming find_method self bundle =
     (self\<lparr>self_current_bundle := Some bundle\<rparr>,
      Inl (case find_method (self_geom self) of
             None \<Rightarrow> AttributeError
           | Some m \<Rightarrow> NameError ''frame''))"
  by (simp add: Surface_register_incoming_def lookup_name_def surface_globals_def Let_def
      split: option.splits)

section \<open>Outgoing rays\<close>

text \<open>
  C5. \<^verbatim>\<open>SphereSurface.get_outgoing\<close> is meant to return a new bundle built from the
  selected columns. On the code it returns no bundle for any selector: when a bundle has
  been registered and the reflection law returns, the bare name \<^verbatim>\<open>parent\<close> raises
  \<^verbatim>\<open>NameError\<close>, and every other path ends in an exception as well.
\<close>

theorem get_outgoing_raises:
  "isl (get_outgoing reflections self selector) \<and>
   (self_current_bundle self = Some cb \<longrightarrow> self_norm self = Some nrm \<longrightarrow>
    reflections (bool_index selector (map direction cb)) nrm = Inr dirs \<longrightarrow>
    get_outgoing reflections self selector = Inl (NameError ''parent''))"
  by (simp add: get_outgoing_def lookup_name_def sphere_surface_globals_def Let_def
      split: option.splits sum.splits)


section \<open>The scalar solver, ray by ray\<close>

lemma point_at_Fin: "point_at ry (Fin t) = lift (along ry t)"
  by (simp add: point_at_def along_def lift_def split: prod.splits)

lemma pick_pair_map: "pick k (f x, f y) = f (pick k (x, y))"
  by (simp add: pick_def)

lemma selected_index_positive:
  "where_positive hits \<noteq> [] \<Longrightarrow> fl_gt0 (pick (selected_index hits) hits)"
  by (cases hits) (auto simp add: where_positive_def selected_index_def argmin_def pick_def
      split: if_splits)

text \<open>With a center and a boundary in place an iteration never raises, and appends the
  parameter that \<open>scalar_param\<close> names.\<close>

lemma register_ray_params:
  "\<exists>a'. register_ray (PyVec c) r (Some inb) ry a = Inr a' \<and>
        params a' = params a @ [scalar_param c r inb ry]"
  by (cases "sphere_ABC c r ry")
     (simp add: register_ray_def scalar_param_def discr_def sphere_hits_def selected_index_def
        Let_def pick_pair_map)

lemma register_loop_params:
  "\<exists>a'. register_loop (PyVec c) r (Some inb) rays a = Inr a' \<and>
        params a' = params a @ map (scalar_param c r inb) rays"
proof (induction rays arbitrary: a)
  case Nil
  show ?case by simp
next
  case (Cons ry rays)
  obtain a1 where a1: "register_ray (PyVec c) r (Some inb) ry a = Inr a1"
    "params a1 = params a @ [scalar_param c r inb ry]"
    using register_ray_params by blast
  from Cons.IH [of a1] a1 show ?case by auto
qed

lemma register_incoming_params:
  assumes "self_center self = PyVec c" and "self_boundary self = Some inb"
  shows "\<exists>self'. register_incoming self bundle =
           Inr (self', map (scalar_param c (self_rad self) inb) bundle)"
proof -
  obtain a' where "register_loop (PyVec c) (self_rad self) (Some inb) bundle acc0 = Inr a'"
    "params a' = params acc0 @ map (scalar_param c (self_rad self) inb) bundle"
    using register_loop_params by blast
  then show ?thesis using assms
    by (simp add: register_incoming_def acc0_def)
qed

lemmas scalar_eval_defs =
  register_incoming_def register_ray_def sphere_ABC_def fl_div_def where_positive_def
  argmin_def pick_def point_at_def vdot_def fv_sub_def lift_def fl_sub_def Let_def

text \<open>
  C8. For a sphere of radius 1 centered at the origin whose boundary accepts the point
  \<open>(0,0,1)\<close>, the single ray from \<open>(0,0,5)\<close> in direction \<open>(0,0,-1)\<close> yields the
  parameter list \<open>[4]\<close>, the stored intersection vertex \<open>(0,0,1)\<close> and the stored
  normal \<open>(0,0,1)\<close>.
\<close>

theorem concrete_scenario:
  assumes "self_center self = PyVec (0, 0, 0)" and "self_rad self = 1"
    and "self_boundary self = Some in_bounds" and "in_bounds (Fin 0, Fin 0, Fin 1)"
    and "vertex ry = (0, 0, 5)" and "direction ry = (0, 0, - 1)"
  shows "register_incoming self [ry] =
           Inr (self\<lparr>self_vertices := Some [Some (Fin 0, Fin 0, Fin 1)],
                     self_current_bundle := Some [ry],
                     self_norm := Some [(Fin 0, Fin 0, Fin 1)]\<rparr>, [Fin 4])"
  using assms by (simp add: scalar_eval_defs)

theorem concrete_scenario_witness:
  "self_center unit_sphere = PyVec (0, 0, 0) \<and> self_rad unit_sphere = 1 \<and>
   self_boundary unit_sphere = Some (\<lambda>p. True) \<and>
   vertex (mk_ray (0, 0, 5) (0, 0, - 1)) = (0, 0, 5) \<and>
   direction (mk_ray (0, 0, 5) (0, 0, - 1)) = (0, 0, - 1) \<and>
   register_incoming unit_sphere [mk_ray (0, 0, 5) (0, 0, - 1)] =
     Inr (unit_sphere\<lparr>self_vertices := Some [Some (Fin 0, Fin 0, Fin 1)],
                      self_current_bundle := Some [mk_ray (0, 0, 5) (0, 0, - 1)],
                      self_norm := Some [(Fin 0, Fin 0, Fin 1)]\<rparr>, [Fin 4])"
  using concrete_scenario [of unit_sphere "\<lambda>p. True" "mk_ray (0, 0, 5) (0, 0, - 1)"]
  by (simp add: unit_sphere_def mk_ray_def)

text \<open>An instance of C5: the surface as the scenario above leaves it, the identity in
  place of the reflection law, and the selector that keeps the one ray.\<close>

theorem get_outgoing_raises_witness:
  "self_current_bundle
     (unit_sphere\<lparr>self_vertices := Some [Some (Fin 0, Fin 0, Fin 1)],
                  self_current_bundle := Some [mk_ray (0, 0, 5) (0, 0, - 1)],
                  self_norm := Some [(Fin 0, Fin 0, Fin 1)]\<rparr>) =
     Some [mk_ray (0, 0, 5) (0, 0, - 1)] \<and>
   isl (get_outgoing (\<lambda>d n. Inr n)
          (unit_sphere\<lparr>self_vertices := Some [Some (Fin 0, Fin 0, Fin 1)],
                      self_current_bundle := Some [mk_ray (0, 0, 5) (0, 0, - 1)],
                      self_norm := Some [(Fin 0, Fin 0, Fin 1)]\<rparr>) [True]) \<and>
   get_outgoing (\<lambda>d n. Inr n)
          (unit_sphere\<lparr>self_vertices := Some [Some (Fin 0, Fin 0, Fin 1)],
                      self_current_bundle := Some [mk_ray (0, 0, 5) (0, 0, - 1)],
                      self_norm := Some [(Fin 0, Fin 0, Fin 1)]\<rparr>) [True]
     = Inl (NameError ''parent'')"
  using get_outgoing_raises [of "\<lambda>d n. Inr n"
      "unit_sphere\<lparr>self_vertices := Some [Some (Fin 0, Fin 0, Fin 1)],
                      self_current_bundle := Some [mk_ray (0, 0, 5) (0, 0, - 1)],
                      self_norm := Some [(Fin 0, Fin 0, Fin 1)]\<rparr>" "[True]"
      "[mk_ray (0, 0, 5) (0, 0, - 1)]" "[(Fin 0, Fin 0, Fin 1)]" "[(Fin 0, Fin 0, Fin 1)]"]
  by simp

text \<open>
  C6. Take a surface with a center and a boundary, and a ray \<open>i\<close> of the bundle with a
  real solution of which at least one root is positive; let \<open>t\<close> be the root the
  selection rule picks. Then \<open>t\<close> is positive, the call returns, and entry \<open>i\<close> of the
  returned parameters is \<open>t\<close> if the boundary accepts the point of the ray at \<open>t\<close> and
  +infinity if it rejects it.
\<close>

theorem boundary_clipping:
  assumes "self_center self = PyVec c" and "self_boundary self = Some in_bounds"
    and "i < length bundle"
    and "0 \<le> discr (sphere_ABC c (self_rad self) (bundle ! i))"
    and "hits = sphere_hits c (self_rad self) (bundle ! i)"
    and "where_positive hits \<noteq> []"
    and "t = pick (selected_index hits) hits"
  shows "fl_gt0 t \<and>
         (\<exists>self' ps. register_incoming self bundle = Inr (self', ps) \<and>
            length ps = length bundle \<and>
            ps ! i = (if in_bounds (point_at (bundle ! i) t) then t else PInf))"
proof -
  obtain self' where
    "register_incoming self bundle =
       Inr (self', map (scalar_param c (self_rad self) in_bounds) bundle)"
    using register_incoming_params [OF assms(1,2)] by blast
  moreover have "scalar_param c (self_rad self) in_bounds (bundle ! i) =
      (if in_bounds (point_at (bundle ! i) t) then t else PInf)"
    using assms(4-7) by (simp add: scalar_param_def)
  moreover have "fl_gt0 t"
    using assms(6,7) selected_index_positive by blast
  ultimately show ?thesis using assms(3) by simp
qed


lemma mk_ray_sel [simp]: "vertex (mk_ray v d) = v" "direction (mk_ray v d) = d"
  by (simp_all add: mk_ray_def)

lemma hits_scenario:
  "sphere_hits (0, 0, 0) 1 (mk_ray (0, 0, 5) (0, 0, - 1)) = (Fin 4, Fin 6)"
  by (simp add: sphere_hits_def sphere_ABC_def fl_div_def)

text \<open>The scenario of C8 once more, now with a boundary that rejects every point.\<close>

theorem boundary_clipping_witness:
  "fl_gt0 (Fin 4) \<and>
   (\<exists>self' ps.
      register_incoming (unit_sphere\<lparr>self_boundary := Some (\<lambda>p. False)\<rparr>)
        [mk_ray (0, 0, 5) (0, 0, - 1)] = Inr (self', ps) \<and>
      length ps = 1 \<and> ps ! 0 = PInf)"
  using boundary_clipping [of "unit_sphere\<lparr>self_boundary := Some (\<lambda>p. False)\<rparr>" "(0, 0, 0)"
      "\<lambda>p. False" 0 "[mk_ray (0, 0, 5) (0, 0, - 1)]" "(Fin 4, Fin 6)" "Fin 4"]
  by (simp add: unit_sphere_def hits_scenario discr_def sphere_ABC_def
      where_positive_def selected_index_def argmin_def pick_def)

section \<open>A ray that starts inside the sphere\<close>


lemma inside_roots:
  fixes A B C :: real
  assumes A: "0 < A" and C: "C < 0"
  defines "s \<equiv> sqrt (B\<^sup>2 - 4 * A * C)"
  shows "0 \<le> B\<^sup>2 - 4 * A * C" and "(- B - s) / (2 * A) < 0" and "0 < (- B + s) / (2 * A)"
    and "0 < s"
proof -
  have "A * C < 0" using A C by (simp add: mult_pos_neg)
  then have gt: "B\<^sup>2 < B\<^sup>2 - 4 * A * C" by simp
  have "0 \<le> B\<^sup>2" by simp
  with gt show nonneg: "0 \<le> B\<^sup>2 - 4 * A * C" by linarith
  have "sqrt (B\<^sup>2) < s" unfolding s_def using gt by (simp only: real_sqrt_less_iff)
  then have abs: "\<bar>B\<bar> < s" by simp
  then show "0 < s" by linarith
  from abs have "- B - s < 0" and "0 < - B + s" by linarith+
  then show "(- B - s) / (2 * A) < 0" and "0 < (- B + s) / (2 * A)"
    using A by (simp_all add: divide_neg_pos)
qed

lemma root_equation:
  fixes A B C :: real
  assumes "A \<noteq> 0" and "0 \<le> B\<^sup>2 - 4 * A * C"
    and "t = (- B + sqrt (B\<^sup>2 - 4 * A * C)) / (2 * A)"
  shows "A * t\<^sup>2 + B * t + C = 0"
proof -
  define s where "s = sqrt (B\<^sup>2 - 4 * A * C)"
  have s2: "s\<^sup>2 = B\<^sup>2 - 4 * A * C" using assms(2) by (simp add: s_def)
  have t: "2 * A * t = - B + s" using assms(1,3) by (simp add: s_def)
  have "4 * A * (A * t\<^sup>2 + B * t + C) = (2 * A * t)\<^sup>2 + 2 * B * (2 * A * t) + 4 * A * C"
    by (simp add: power2_eq_square algebra_simps)
  also have "\<dots> = (- B + s)\<^sup>2 + 2 * B * (- B + s) + 4 * A * C" by (simp only: t)
  also have "\<dots> = s\<^sup>2 - B\<^sup>2 + 4 * A * C" by (simp add: power2_eq_square algebra_simps)
  also have "\<dots> = 0" by (simp add: s2)
  finally show ?thesis using assms(1) by simp
qed

lemma fl_sub_Fin: "fl_sub (Fin x) (Fin y) = Fin (x - y)"
  by (simp add: fl_sub_def)

lemma inside_dot:
  fixes A B t :: real
  assumes A: "A = d0\<^sup>2 + d1\<^sup>2 + d2\<^sup>2"
    and B: "B = 2 * (d0 * (v0 - c0) + d1 * (v1 - c1) + d2 * (v2 - c2))"
    and t: "2 * A * t = - B + s" and "0 < t" and "0 < s"
  shows "(c0 - (v0 + d0 * t)) * (v0 + d0 * t - v0) + (c1 - (v1 + d1 * t)) * (v1 + d1 * t - v1)
         + (c2 - (v2 + d2 * t)) * (v2 + d2 * t - v2) < 0"
proof -
  have "(c0 - (v0 + d0 * t)) * (v0 + d0 * t - v0) + (c1 - (v1 + d1 * t)) * (v1 + d1 * t - v1)
         + (c2 - (v2 + d2 * t)) * (v2 + d2 * t - v2) = - (t * (B + 2 * A * t)) / 2"
    by (simp add: A B power2_eq_square algebra_simps)
  also have "\<dots> = - (t * s) / 2" by (simp add: t)
  also have "\<dots> < 0" using \<open>0 < t\<close> \<open>0 < s\<close> by simp
  finally show ?thesis .
qed

text \<open>
  Over the reals, a ray with a non-zero direction that starts strictly inside the sphere
  has a negative and a positive root; the point at the positive root lies on the sphere,
  and the sidedness there is not positive, so the loop body takes its inner-surface
  branch. This is exact arithmetic: in float64 a root within rounding of 0 can come out
  as 0 (a vertex within an ulp of the surface), and rounding can likewise move a
  sidedness close to 0 across it.
\<close>

lemma register_ray_inside:
  assumes abc: "sphere_ABC c r ry = (A, B, C)"
    and inside: "dist2 (vertex ry) c < r\<^sup>2"
    and dir: "direction ry \<noteq> (0, 0, 0)"
    and t: "t = (- B + sqrt (B\<^sup>2 - 4 * A * C)) / (2 * A)"
    and inb: "in_bounds (lift (along ry t))"
  shows "register_ray (PyVec c) r (Some in_bounds) ry a =
           Inr (a\<lparr>params := params a @ [Fin t],
                  vertices := vertices a @ [Some (lift (along ry t))],
                  norm := norm a @ [fv_sub (lift c) (lift (along ry t))]\<rparr>)"
    and "where_positive (sphere_hits c r ry) = [1]"
    and "sphere_hits c r ry = (Fin ((- B - sqrt (B\<^sup>2 - 4 * A * C)) / (2 * A)), Fin t)"
    and "0 < t"
    and "dist2 (along ry t) c = r\<^sup>2"
    and "0 \<le> discr (sphere_ABC c r ry)"
    and "fl_le0 (sidedness c ry (lift (along ry t)))"
proof -
  obtain c0 c1 c2 where c: "c = (c0, c1, c2)" by (cases c) auto
  obtain v0 v1 v2 where v: "vertex ry = (v0, v1, v2)" by (cases "vertex ry") auto
  obtain d0 d1 d2 where d: "direction ry = (d0, d1, d2)" by (cases "direction ry") auto
  define s where "s = sqrt (B\<^sup>2 - 4 * A * C)"
  have A: "A = d0\<^sup>2 + d1\<^sup>2 + d2\<^sup>2"
    and B: "B = 2 * (d0 * (v0 - c0) + d1 * (v1 - c1) + d2 * (v2 - c2))"
    and C: "C = (v0 - c0)\<^sup>2 + (v1 - c1)\<^sup>2 + (v2 - c2)\<^sup>2 - r\<^sup>2"
    using abc by (simp_all add: sphere_ABC_def c v d)
  have "d0 \<noteq> 0 \<or> d1 \<noteq> 0 \<or> d2 \<noteq> 0" using dir d by simp
  then have "0 < d0\<^sup>2 + d1\<^sup>2 + d2\<^sup>2"
    by (metis add_pos_nonneg add_nonneg_pos zero_le_power2 zero_less_power2 add_nonneg_nonneg)
  then have Apos: "0 < A" by (simp add: A)
  have Cneg: "C < 0" using inside by (simp add: C dist2_def v c)
  note roots = inside_roots [OF Apos Cneg, of B, folded s_def]
  have t': "t = (- B + s) / (2 * A)" by (simp add: t s_def)
  have tA: "2 * A * t = - B + s" using Apos by (simp add: t')
  show tpos: "0 < t" using roots(3) by (simp add: t')
  show hits: "sphere_hits c r ry = (Fin ((- B - sqrt (B\<^sup>2 - 4 * A * C)) / (2 * A)), Fin t)"
    using Apos by (simp add: sphere_hits_def abc fl_div_def t)
  show wp: "where_positive (sphere_hits c r ry) = [1]"
    using roots(2) tpos by (simp add: hits where_positive_def s_def)
  have eq: "A * t\<^sup>2 + B * t + C = 0"
    using root_equation [of A B C t] Apos roots(1) t by simp
  have "dist2 (along ry t) c - r\<^sup>2 = A * t\<^sup>2 + B * t + C"
    by (simp add: dist2_def along_def v d c A B C power2_eq_square algebra_simps)
  then show "dist2 (along ry t) c = r\<^sup>2" using eq by simp
  have dot: "(c0 - (v0 + d0 * t)) * (v0 + d0 * t - v0) + (c1 - (v1 + d1 * t)) * (v1 + d1 * t - v1)
         + (c2 - (v2 + d2 * t)) * (v2 + d2 * t - v2) < 0"
    by (rule inside_dot [OF A B tA tpos roots(4)])
  have nd: "\<not> B\<^sup>2 - 4 * A * C < 0" using roots(1) by simp
  have t0: "fl_div (- B - sqrt (B\<^sup>2 - 4 * A * C)) (2 * A) = Fin ((- B - s) / (2 * A))"
    and t1: "fl_div (- B + sqrt (B\<^sup>2 - 4 * A * C)) (2 * A) = Fin t"
    using Apos by (simp_all add: fl_div_def t' s_def)
  have wp': "where_positive (Fin ((- B - s) / (2 * A)), Fin t) = [1]"
    using roots(2) tpos by (simp add: where_positive_def)
  have pt: "point_at ry (Fin t) = lift (along ry t)" by (rule point_at_Fin)
  have le0: "fl_le0 (vdot (fv_sub (lift c) (lift (along ry t)))
                       (fv_sub (lift (along ry t)) (lift (vertex ry))))"
    using dot by (simp add: vdot_def fv_sub_def lift_def along_def fl_sub_Fin c v d)
  then show "fl_le0 (sidedness c ry (lift (along ry t)))" by (simp add: sidedness_def)
  show "0 \<le> discr (sphere_ABC c r ry)" using roots(1) by (simp add: abc discr_def)
  show "register_ray (PyVec c) r (Some in_bounds) ry a =
           Inr (a\<lparr>params := params a @ [Fin t],
                  vertices := vertices a @ [Some (lift (along ry t))],
                  norm := norm a @ [fv_sub (lift c) (lift (along ry t))]\<rparr>)"
    using nd t0 t1 by (simp add: register_ray_def abc wp' Let_def pick_def pt le0 inb)
qed


text \<open>
  C9, as stated, fails on the normal. The ray from the center of the unit sphere in
  direction \<open>(0,0,1)\<close> starts strictly inside; the call returns the parameter 1 and the
  exit point \<open>(0,0,1)\<close>, and the stored normal is \<open>(0,0,-1)\<close>: it points from the hit
  point towards the center, not from the center towards the hit point.
\<close>

theorem inside_origin_normal_counterexample:
  "dist2 (vertex (mk_ray (0, 0, 0) (0, 0, 1))) (0, 0, 0) < 1\<^sup>2 \<and>
   register_incoming unit_sphere [mk_ray (0, 0, 0) (0, 0, 1)] =
     Inr (unit_sphere\<lparr>self_vertices := Some [Some (Fin 0, Fin 0, Fin 1)],
                      self_current_bundle := Some [mk_ray (0, 0, 0) (0, 0, 1)],
                      self_norm := Some [(Fin 0, Fin 0, Fin (- 1))]\<rparr>, [Fin 1]) \<and>
   (Fin 0, Fin 0, Fin (- 1)) \<noteq> fv_sub (Fin 0, Fin 0, Fin 1) (lift (0, 0, 0)) \<and>
   \<not> fl_gt0 (vdot (Fin 0, Fin 0, Fin (- 1)) (fv_sub (Fin 0, Fin 0, Fin 1) (lift (0, 0, 0))))"
  by (simp add: scalar_eval_defs unit_sphere_def dist2_def)

text \<open>The shape of what the loop appends: a parameter per ray, a vertex slot per ray
  with a real solution, a normal per accepted hit.\<close>

lemma register_ray_shape:
  "\<exists>a' vs ns. register_ray (PyVec c) r (Some inb) ry a = Inr a' \<and>
     params a' = params a @ [scalar_param c r inb ry] \<and>
     vertices a' = vertices a @ vs \<and>
     length vs = (if 0 \<le> discr (sphere_ABC c r ry) then 1 else 0) \<and>
     norm a' = norm a @ ns \<and>
     length ns = (if accepted_hit c r inb ry then 1 else 0)"
  by (cases "sphere_ABC c r ry")
     (simp add: register_ray_def scalar_param_def discr_def sphere_hits_def selected_index_def
        accepted_hit_def Let_def pick_pair_map)

lemma register_loop_shape:
  "\<exists>a' vs ns. register_loop (PyVec c) r (Some inb) rays a = Inr a' \<and>
     params a' = params a @ map (scalar_param c r inb) rays \<and>
     vertices a' = vertices a @ vs \<and>
     length vs = length (filter (\<lambda>ry. 0 \<le> discr (sphere_ABC c r ry)) rays) \<and>
     norm a' = norm a @ ns \<and>
     length ns = length (filter (accepted_hit c r inb) rays)"
proof (induction rays arbitrary: a)
  case Nil
  show ?case by simp
next
  case (Cons ry rays)
  obtain a1 vs1 ns1 where a1: "register_ray (PyVec c) r (Some inb) ry a = Inr a1"
    "params a1 = params a @ [scalar_param c r inb ry]"
    "vertices a1 = vertices a @ vs1"
    "length vs1 = (if 0 \<le> discr (sphere_ABC c r ry) then 1 else 0)"
    "norm a1 = norm a @ ns1"
    "length ns1 = (if accepted_hit c r inb ry then 1 else 0)"
    using register_ray_shape by blast
  obtain a2 vs2 ns2 where a2: "register_loop (PyVec c) r (Some inb) rays a1 = Inr a2"
    "params a2 = params a1 @ map (scalar_param c r inb) rays"
    "vertices a2 = vertices a1 @ vs2"
    "length vs2 = length (filter (\<lambda>ry. 0 \<le> discr (sphere_ABC c r ry)) rays)"
    "norm a2 = norm a1 @ ns2"
    "length ns2 = length (filter (accepted_hit c r inb) rays)"
    using Cons.IH [of a1] by blast
  show ?case
  proof (intro exI conjI)
    show "register_loop (PyVec c) r (Some inb) (ry # rays) a = Inr a2"
      by (simp add: a1(1) a2(1))
    show "params a2 = params a @ map (scalar_param c r inb) (ry # rays)"
      by (simp add: a1(2) a2(2))
    show "vertices a2 = vertices a @ (vs1 @ vs2)" by (simp add: a1(3) a2(3))
    show "length (vs1 @ vs2) =
        length (filter (\<lambda>ry. 0 \<le> discr (sphere_ABC c r ry)) (ry # rays))"
      by (simp add: a1(4) a2(4))
    show "norm a2 = norm a @ (ns1 @ ns2)" by (simp add: a1(5) a2(5))
    show "length (ns1 @ ns2) = length (filter (accepted_hit c r inb) (ry # rays))"
      by (simp add: a1(6) a2(6))
  qed
qed

lemma register_loop_append:
  "register_loop center r bd (xs @ ys) a =
     (case register_loop center r bd xs a of
        Inl e \<Rightarrow> Inl e
      | Inr a1 \<Rightarrow> register_loop center r bd ys a1)"
  by (induction xs arbitrary: a) (simp_all split: sum.splits)

lemma register_ray_one_positive:
  assumes "0 \<le> discr (sphere_ABC c r ry)"
    and "where_positive (sphere_hits c r ry) = [k]"
    and "t = pick k (sphere_hits c r ry)" and "p = point_at ry t"
    and "in_bounds p" and "fl_le0 (sidedness c ry p)"
  shows "register_ray (PyVec c) r (Some in_bounds) ry a =
           Inr (a\<lparr>params := params a @ [t], vertices := vertices a @ [Some p],
                  norm := norm a @ [fv_sub (lift c) p]\<rparr>)"
  using assms
  by (cases "sphere_ABC c r ry")
     (simp add: register_ray_def discr_def sphere_hits_def sidedness_def Let_def pick_pair_map)

lemma where_positive_single:
  "where_positive hits = [k] \<Longrightarrow> fl_gt0 (pick k hits)"
  by (cases hits) (auto simp add: where_positive_def pick_def split: if_splits)

text \<open>
  C9, amended. Take a surface with a center and a boundary, and a ray \<open>i\<close> of a bundle
  for which the solver computes a non-negative discriminant and exactly one positive
  root \<open>t\<close> (over the reals: every ray with a non-zero direction that starts strictly
  inside the sphere), whose exit point \<open>p\<close> the boundary accepts and whose sidedness
  at \<open>p\<close> is not positive (over the reals: always, for such a ray). Then the call
  returns, entry \<open>i\<close> of the parameters is \<open>t\<close>, and the stored arrays, which are
  compacted, hold the exit point in the vertex column numbered by the earlier rays with
  a real solution and, in the normal column numbered by the earlier accepted hits, the
  center minus the exit point: a normal from the hit point towards the center.
\<close>

theorem one_positive_root_exit:
  assumes "self_center self = PyVec c" and "self_boundary self = Some in_bounds"
    and "i < length bundle"
    and "0 \<le> discr (sphere_ABC c (self_rad self) (bundle ! i))"
    and "where_positive (sphere_hits c (self_rad self) (bundle ! i)) = [k]"
    and "t = pick k (sphere_hits c (self_rad self) (bundle ! i))"
    and "p = point_at (bundle ! i) t"
    and "in_bounds p"
    and "fl_le0 (sidedness c (bundle ! i) p)"
    and "nv = length (filter (\<lambda>ry. 0 \<le> discr (sphere_ABC c (self_rad self) ry)) (take i bundle))"
    and "nn = length (filter (accepted_hit c (self_rad self) in_bounds) (take i bundle))"
  shows "fl_gt0 t \<and>
         (\<exists>self' ps vs ns. register_incoming self bundle = Inr (self', ps) \<and>
            self_vertices self' = Some vs \<and> self_norm self' = Some ns \<and>
            length ps = length bundle \<and> ps ! i = t \<and>
            nv < length vs \<and> vs ! nv = Some p \<and>
            nn < length ns \<and> ns ! nn = fv_sub (lift c) p)"
proof -
  define r where "r = self_rad self"
  define pre where "pre = take i bundle"
  define post where "post = drop (Suc i) bundle"
  define ry where "ry = bundle ! i"
  have split: "bundle = pre @ ry # post"
    unfolding pre_def post_def ry_def using assms(3) by (rule id_take_nth_drop)
  have lpre: "length pre = i" using assms(3) by (simp add: pre_def)
  obtain a1 vs1 ns1 where a1: "register_loop (PyVec c) r (Some in_bounds) pre acc0 = Inr a1"
    "params a1 = params acc0 @ map (scalar_param c r in_bounds) pre"
    "vertices a1 = vertices acc0 @ vs1"
    "length vs1 = length (filter (\<lambda>ry. 0 \<le> discr (sphere_ABC c r ry)) pre)"
    "norm a1 = norm acc0 @ ns1"
    "length ns1 = length (filter (accepted_hit c r in_bounds) pre)"
    using register_loop_shape by blast
  define a2 where "a2 = a1\<lparr>params := params a1 @ [t], vertices := vertices a1 @ [Some p],
                  norm := norm a1 @ [fv_sub (lift c) p]\<rparr>"
  have step: "register_ray (PyVec c) r (Some in_bounds) ry a1 = Inr a2"
    unfolding a2_def r_def ry_def
    by (rule register_ray_one_positive [where in_bounds = in_bounds, OF assms(4-9)])
  obtain a3 vs3 ns3 where a3: "register_loop (PyVec c) r (Some in_bounds) post a2 = Inr a3"
    "params a3 = params a2 @ map (scalar_param c r in_bounds) post"
    "vertices a3 = vertices a2 @ vs3"
    "norm a3 = norm a2 @ ns3"
    using register_loop_shape by blast
  have loop: "register_loop (PyVec c) r (Some in_bounds) bundle acc0 = Inr a3"
    by (simp add: split register_loop_append a1(1) step a3(1))
  have ps: "params a3 = map (scalar_param c r in_bounds) pre @ t # map (scalar_param c r in_bounds) post"
    by (simp add: a3(2) a2_def a1(2) acc0_def)
  have vs: "vertices a3 = vs1 @ Some p # vs3"
    by (simp add: a3(3) a2_def a1(3) acc0_def)
  have ns: "norm a3 = ns1 @ fv_sub (lift c) p # ns3"
    by (simp add: a3(4) a2_def a1(5) acc0_def)
  have nv: "nv = length vs1" by (simp add: assms(10) a1(4) pre_def r_def)
  have nn: "nn = length ns1" by (simp add: assms(11) a1(6) pre_def r_def)
  have res: "register_incoming self bundle =
      Inr (self\<lparr>self_vertices := Some (vertices a3), self_current_bundle := Some bundle,
                self_norm := Some (norm a3)\<rparr>, params a3)"
    using loop by (simp add: register_incoming_def assms(1,2) r_def acc0_def)
  have "length (params a3) = length bundle"
    by (simp add: ps split)
  moreover have "params a3 ! i = t" using lpre by (simp add: ps nth_append)
  moreover have "nv < length (vertices a3)" "vertices a3 ! nv = Some p"
    by (simp_all add: vs nv)
  moreover have "nn < length (norm a3)" "norm a3 ! nn = fv_sub (lift c) p"
    by (simp_all add: ns nn)
  moreover have "fl_gt0 t" using where_positive_single [OF assms(5)] by (simp add: assms(6))
  ultimately show ?thesis using res by simp
qed

lemma four_rays_hits:
  "sphere_hits (0, 0, 0) 1 (mk_ray (2, 0, 0) (1, 0, 0)) = (Fin (- 3), Fin (- 1))"
  "sphere_hits (0, 0, 0) 1 (mk_ray (0, 0, 5) (0, 0, - 1)) = (Fin 4, Fin 6)"
  "sphere_hits (0, 0, 0) 1 (mk_ray (0, 0, 0) (0, 0, 1)) = (Fin (- 1), Fin 1)"
  by (simp_all add: sphere_hits_def sphere_ABC_def fl_div_def)

lemma four_rays_discr:
  "discr (sphere_ABC (0, 0, 0) 1 (mk_ray (0, 0, 5) (1, 0, 0))) = - 96"
  "discr (sphere_ABC (0, 0, 0) 1 (mk_ray (2, 0, 0) (1, 0, 0))) = 4"
  "discr (sphere_ABC (0, 0, 0) 1 (mk_ray (0, 0, 5) (0, 0, - 1))) = 4"
  "discr (sphere_ABC (0, 0, 0) 1 (mk_ray (0, 0, 0) (0, 0, 1))) = 4"
  by (simp_all add: discr_def sphere_ABC_def)

theorem one_positive_root_exit_witness:
  "fl_gt0 (Fin 1) \<and>
   (\<exists>self' ps vs ns.
      register_incoming unit_sphere
        [mk_ray (0, 0, 5) (1, 0, 0), mk_ray (2, 0, 0) (1, 0, 0),
         mk_ray (0, 0, 5) (0, 0, - 1), mk_ray (0, 0, 0) (0, 0, 1)] = Inr (self', ps) \<and>
      self_vertices self' = Some vs \<and> self_norm self' = Some ns \<and>
      length ps = 4 \<and> ps ! 3 = Fin 1 \<and>
      2 < length vs \<and> vs ! 2 = Some (Fin 0, Fin 0, Fin 1) \<and>
      1 < length ns \<and> ns ! 1 = (Fin 0, Fin 0, Fin (- 1)))"
proof -
  define b where "b = [mk_ray (0, 0, 5) (1, 0, 0), mk_ray (2, 0, 0) (1, 0, 0),
         mk_ray (0, 0, 5) (0, 0, - 1), mk_ray (0, 0, 0) (0, 0, 1)]"
  have b3: "b ! 3 = mk_ray (0, 0, 0) (0, 0, 1)" and lb: "length b = 4"
    and tb: "take 3 b = [mk_ray (0, 0, 5) (1, 0, 0), mk_ray (2, 0, 0) (1, 0, 0),
         mk_ray (0, 0, 5) (0, 0, - 1)]"
    by (simp_all add: b_def)
  have c: "self_center unit_sphere = PyVec (0, 0, 0)"
    and bd: "self_boundary unit_sphere = Some (\<lambda>p. True)"
    and r: "self_rad unit_sphere = 1"
    by (simp_all add: unit_sphere_def)
  have i: "3 < length b" by (simp add: lb)
  have d: "0 \<le> discr (sphere_ABC (0, 0, 0) (self_rad unit_sphere) (b ! 3))"
    by (simp add: r b3 four_rays_discr)
  have w: "where_positive (sphere_hits (0, 0, 0) (self_rad unit_sphere) (b ! 3)) = [1]"
    by (simp add: r b3 four_rays_hits where_positive_def)
  have t: "Fin 1 = pick 1 (sphere_hits (0, 0, 0) (self_rad unit_sphere) (b ! 3))"
    by (simp add: r b3 four_rays_hits pick_def)
  have p: "(Fin 0, Fin 0, Fin 1) = point_at (b ! 3) (Fin 1)"
    by (simp add: b3 point_at_def)
  have s: "fl_le0 (sidedness (0, 0, 0) (b ! 3) (Fin 0, Fin 0, Fin 1))"
    by (simp add: b3 sidedness_def vdot_def fv_sub_def lift_def fl_sub_Fin)
  have nv: "2 = length (filter (\<lambda>ry. 0 \<le> discr (sphere_ABC (0, 0, 0) (self_rad unit_sphere) ry))
                (take 3 b))"
    by (simp add: r tb four_rays_discr)
  have nn: "1 = length (filter (accepted_hit (0, 0, 0) (self_rad unit_sphere) (\<lambda>p. True))
                (take 3 b))"
    by (simp add: r tb accepted_hit_def four_rays_discr four_rays_hits where_positive_def)
  from one_positive_root_exit [where in_bounds = "\<lambda>p. True", OF c bd i d w t p TrueI s nv nn]
  show ?thesis
    unfolding lb unfolding b_def by (simp add: fv_sub_def lift_def fl_sub_Fin)
qed

section \<open>The batched solver, column by column\<close>

lemma bool_index_simps [simp]:
  "bool_index [] xs = []"
  "bool_index ms [] = []"
  "bool_index (True # ms) (x # xs) = x # bool_index ms xs"
  "bool_index (False # ms) (x # xs) = bool_index ms xs"
  by (simp_all add: bool_index_def)

lemma bool_index_map: "bool_index ms (map f ys) = map f (bool_index ms ys)"
proof (induction ms arbitrary: ys)
  case Nil
  show ?case by simp
next
  case (Cons m ms)
  then show ?case by (cases ys; cases m) simp_all
qed

lemma bool_index_zip: "zip (bool_index ms xs) (bool_index ms ys) = bool_index ms (zip xs ys)"
proof (induction ms arbitrary: xs ys)
  case Nil
  show ?case by simp
next
  case (Cons m ms)
  then show ?case by (cases xs; cases ys; cases m) simp_all
qed

lemma bool_index_all_False: "\<forall>m \<in> set ms. \<not> m \<Longrightarrow> bool_index ms xs = []"
proof (induction ms arbitrary: xs)
  case Nil
  show ?case by simp
next
  case (Cons m ms)
  then show ?case by (cases xs) auto
qed

lemma length_bool_index:
  "length ms = length xs \<Longrightarrow> length (bool_index ms xs) = length (filter id ms)"
  by (induction ms xs rule: list_induct2) auto

lemma length_mask_put [simp]: "length (mask_put xs ms vs) = length xs"
  by (induction xs ms vs rule: mask_put.induct) simp_all

lemma mask_put_Nil [simp]: "mask_put xs ms [] = xs"
  by (induction xs ms "[] :: 'a list" rule: mask_put.induct) simp_all

lemma mask_put_nth_False:
  "i < length xs \<Longrightarrow> i < length ms \<Longrightarrow> \<not> ms ! i \<Longrightarrow> mask_put xs ms vs ! i = xs ! i"
proof (induction xs ms vs arbitrary: i rule: mask_put.induct)
  case (3 x xs msk vs)
  then show ?case by (cases i) simp_all
next
  case (4 x xs msk)
  then show ?case by (cases i) simp_all
next
  case (5 x xs msk v vs)
  then show ?case by (cases i) simp_all
qed simp_all

lemma mask_put_nth_True:
  "i < length xs \<Longrightarrow> length ms = length xs \<Longrightarrow> ms ! i \<Longrightarrow>
   length (filter id ms) \<le> length vs \<Longrightarrow>
   mask_put xs ms vs ! i = vs ! length (filter id (take i ms))"
proof (induction xs ms vs arbitrary: i rule: mask_put.induct)
  case (3 x xs msk vs)
  then show ?case by (cases i) simp_all
next
  case (4 x xs msk)
  then show ?case by simp
next
  case (5 x xs msk v vs)
  then show ?case by (cases i) simp_all
qed simp_all

lemma mask_put_bool_index:
  "length xs = length ms \<Longrightarrow> length ms = length ys \<Longrightarrow>
   mask_put xs ms (bool_index ms ys) = map (\<lambda>(x, m, y). if m then y else x) (zip xs (zip ms ys))"
proof (induction xs ms ys rule: list_induct3)
  case Nil
  show ?case by simp
next
  case (Cons x xs m ms y ys)
  then show ?case by (cases m) simp_all
qed

lemma length_mask_fill [simp]: "length (mask_fill xs ms v) = min (length xs) (length ms)"
  by (simp add: mask_fill_def)

lemma mask_fill_nth:
  "i < length xs \<Longrightarrow> i < length ms \<Longrightarrow> mask_fill xs ms v ! i = (if ms ! i then v else xs ! i)"
  by (simp add: mask_fill_def)

lemma bool_index_map_pred: "bool_index (map P xs) xs = filter P xs"
  by (induction xs) (simp_all add: bool_index_def)

lemma count_before_less:
  "i < length ms \<Longrightarrow> ms ! i \<Longrightarrow> length (filter id (take i ms)) < length (filter id ms)"
proof -
  assume i: "i < length ms" and m: "ms ! i"
  have "ms = take i ms @ ms ! i # drop (Suc i) ms" using i by (rule id_take_nth_drop)
  then have "filter id ms = filter id (take i ms) @ filter id (ms ! i # drop (Suc i) ms)"
    by (metis filter_append)
  then show ?thesis using m by simp
qed

lemma nonzero_rows_length:
  "\<forall>c \<in> set cols. fst c \<noteq> snd c \<Longrightarrow> length (nonzero_rows cols) = length cols"
  by (induction cols) (auto simp add: nonzero_rows_def)

lemma nonzero_rows_set: "set (nonzero_rows cols) \<subseteq> {0, 1}"
  by (auto simp add: nonzero_rows_def)

lemma nonzero_rows_ones:
  "\<forall>c \<in> set cols. \<not> fst c \<Longrightarrow> set (nonzero_rows cols) \<subseteq> {1}"
  by (auto simp add: nonzero_rows_def)

text \<open>The entries of the selection array, column by column.\<close>

lemma select_coords_length [simp]: "length (select_coords prm junk) = length prm"
  by (simp add: select_coords_def Let_def)

lemma select_coords_nth:
  assumes i: "i < length prm"
  defines "p \<equiv> fl_gt0 (fst (prm ! i))" and "q \<equiv> fl_gt0 (snd (prm ! i))"
  shows "p \<and> q \<Longrightarrow> select_coords prm junk ! i = Fin 0"
    and "\<not> p \<and> \<not> q \<Longrightarrow> select_coords prm junk ! i = junk i"
    and "p \<noteq> q \<Longrightarrow> select_coords prm junk ! i \<in> {Fin 0, Fin 1}"
    and "p \<noteq> q \<Longrightarrow> \<forall>t \<in> set prm. \<not> (fl_gt0 (fst t) \<and> \<not> fl_gt0 (snd t)) \<Longrightarrow>
           select_coords prm junk ! i = Fin 1"
proof -
  define ip where "ip = map (\<lambda>(t0, t1). (fl_gt0 t0, fl_gt0 t1)) prm"
  define one_pos where "one_pos = map (\<lambda>(p, q). p \<noteq> q) ip"
  define cols where "cols = bool_index one_pos ip"
  define vals where "vals = map (\<lambda>r. Fin (real r)) (nonzero_rows cols)"
  define select2 where "select2 =
    mask_fill (mask_fill (map junk [0..<length prm]) (map (\<lambda>(p, q). p \<or> q) ip) NaN)
      (map (\<lambda>(p, q). p \<and> q) ip) (Fin 0)"
  have sel: "select_coords prm junk = mask_put select2 one_pos vals"
    by (simp add: select_coords_def Let_def ip_def one_pos_def cols_def vals_def select2_def)
  have len: "length ip = length prm" "length one_pos = length prm" "length select2 = length prm"
    by (simp_all add: ip_def one_pos_def select2_def)
  have ipi: "ip ! i = (p, q)"
    using i by (simp add: ip_def p_def q_def split: prod.splits)
  have opi: "one_pos ! i = (p \<noteq> q)" using i len by (simp add: one_pos_def ipi)
  have s2: "select2 ! i = (if p \<and> q then Fin 0 else if p \<or> q then NaN else junk i)"
    using i len by (simp add: select2_def mask_fill_nth ipi)
  show "p \<and> q \<Longrightarrow> select_coords prm junk ! i = Fin 0"
    using i len opi s2 by (simp add: sel mask_put_nth_False)
  show "\<not> p \<and> \<not> q \<Longrightarrow> select_coords prm junk ! i = junk i"
    using i len opi s2 by (simp add: sel mask_put_nth_False)
  have cols_filter: "cols = filter (\<lambda>(p, q). p \<noteq> q) ip"
    by (simp add: cols_def one_pos_def bool_index_map_pred)
  then have "\<forall>c \<in> set cols. fst c \<noteq> snd c" by auto
  then have "length (nonzero_rows cols) = length cols" by (rule nonzero_rows_length)
  moreover have "length cols = length (filter id one_pos)"
    by (simp add: cols_filter one_pos_def filter_map comp_def)
  ultimately have lv: "length vals = length (filter id one_pos)" by (simp add: vals_def)
  {
    assume pq: "p \<noteq> q"
    then have m: "one_pos ! i" by (simp add: opi)
    define k where "k = length (filter id (take i one_pos))"
    have "k < length vals"
      using count_before_less [of i one_pos] i len m by (simp add: lv k_def)
    moreover have "select_coords prm junk ! i = vals ! k"
      using i len m lv by (simp add: sel k_def mask_put_nth_True)
    ultimately have "select_coords prm junk ! i \<in> set vals" by simp
  }
  note in_vals = this
  have "set vals \<subseteq> {Fin 0, Fin 1}"
    using nonzero_rows_set [of cols] by (auto simp add: vals_def)
  then show "p \<noteq> q \<Longrightarrow> select_coords prm junk ! i \<in> {Fin 0, Fin 1}"
    using in_vals by blast
  {
    assume H: "\<forall>t \<in> set prm. \<not> (fl_gt0 (fst t) \<and> \<not> fl_gt0 (snd t))"
    have "\<forall>c \<in> set cols. \<not> fst c"
      using H by (auto simp add: cols_filter ip_def)
    then have "set (nonzero_rows cols) \<subseteq> {1}" by (rule nonzero_rows_ones)
    then have "set vals \<subseteq> {Fin 1}" by (auto simp add: vals_def)
  }
  then show "p \<noteq> q \<Longrightarrow> \<forall>t \<in> set prm. \<not> (fl_gt0 (fst t) \<and> \<not> fl_gt0 (snd t)) \<Longrightarrow>
           select_coords prm junk ! i = Fin 1"
    using in_vals by blast
qed

lemma find_intersections_unfold:
  "find_intersections get_ABC bundle junk_hits junk_select =
     (if list_all (\<lambda>k. k = 0 \<or> k = 1)
           (map np_int
              (bool_index
                 (still_inters get_ABC bundle
                    (select_coords (hits_array get_ABC bundle junk_hits) junk_select))
                 (select_coords (hits_array get_ABC bundle junk_hits) junk_select)))
      then Inr (map (\<lambda>i.
                  if still_inters get_ABC bundle
                       (select_coords (hits_array get_ABC bundle junk_hits) junk_select) ! i
                  then pick (nat (np_int
                          (select_coords (hits_array get_ABC bundle junk_hits) junk_select ! i)))
                         (hits_array get_ABC bundle junk_hits ! i)
                  else PInf)
                [0..<length bundle])
      else Inl ValueError)"
proof -
  define hits where "hits = hits_array get_ABC bundle junk_hits"
  define select where "select = select_coords hits junk_select"
  define ms where "ms = still_inters get_ABC bundle select"
  define n where "n = length bundle"
  define abc where "abc = map get_ABC bundle"
  define delta where "delta = map (\<lambda>(A, B, C). B\<^sup>2 - 4 * A * C) abc"
  define any_inters where "any_inters = map (\<lambda>x. (0::real) \<le> x) delta"
  define delta' where "delta' = map (\<lambda>x. if 0 \<le> x then sqrt x else x) delta"
  define hits0 where "hits0 = map (\<lambda>(i, abc_i, inters_i, delta_i).
                        if inters_i then column_hits abc_i delta_i else junk_hits i)
                   (zip [0..<n] (zip abc (zip any_inters delta')))"
  define ms0 where "ms0 = map (\<lambda>(a, m). a \<and> \<not> m)
     (zip any_inters (map isnan (select_coords hits0 junk_select)))"
  have fi: "find_intersections get_ABC bundle junk_hits junk_select =
      (case np_choose (map np_int (bool_index ms0 (select_coords hits0 junk_select)))
              (bool_index ms0 hits0) of
         Inl e \<Rightarrow> Inl e
       | Inr chosen \<Rightarrow> Inr (mask_put (replicate n PInf) ms0 chosen))"
    by (simp only: find_intersections_def Let_def n_def abc_def delta_def any_inters_def
        delta'_def hits0_def ms0_def)
  have delta_nth: "delta ! i = discr (get_ABC (bundle ! i))" if "i < n" for i
    using that by (simp add: delta_def abc_def n_def discr_def split: prod.splits)
  have h: "hits0 = hits"
  proof (rule nth_equalityI)
    show "length hits0 = length hits"
      by (simp add: hits0_def hits_def hits_array_def abc_def delta_def any_inters_def
          delta'_def n_def)
    fix i assume "i < length hits0"
    then have i: "i < n"
      by (simp add: hits0_def abc_def delta_def any_inters_def delta'_def n_def)
    then have "hits0 ! i = (if 0 \<le> delta ! i
        then column_hits (abc ! i) (sqrt (delta ! i)) else junk_hits i)"
      by (simp add: hits0_def abc_def delta_def any_inters_def delta'_def n_def)
    also have "\<dots> = hits ! i"
      using i by (simp add: delta_nth hits_def hits_array_def batched_hits_def n_def abc_def)
    finally show "hits0 ! i = hits ! i" .
  qed
  have lh: "length hits = n" by (simp add: hits_def hits_array_def n_def)
  have ls: "length select = n" by (simp add: select_def lh)
  have m: "ms0 = ms"
  proof (rule nth_equalityI)
    show "length ms0 = length ms"
      by (simp add: ms0_def ms_def still_inters_def any_inters_def delta_def abc_def h lh
          select_def [symmetric] ls n_def)
    fix i assume "i < length ms0"
    then have i: "i < n"
      by (simp add: ms0_def any_inters_def delta_def abc_def n_def)
    then show "ms0 ! i = ms ! i"
      using ls
      by (simp add: ms0_def ms_def still_inters_def any_inters_def h select_def [symmetric]
          n_def [symmetric] delta_def abc_def discr_def)
  qed
  have lm: "length ms = n" by (simp add: ms_def still_inters_def n_def)
  define Y where "Y = map (\<lambda>(s, h). pick (nat (np_int s)) h) (zip select hits)"
  have chosen: "map (\<lambda>(k, p). pick (nat k) p)
          (zip (map np_int (bool_index ms select)) (bool_index ms hits)) = bool_index ms Y"
    by (simp add: Y_def bool_index_map bool_index_zip zip_map1 comp_def split_def)
  have put: "mask_put (replicate n PInf) ms (bool_index ms Y) =
      map (\<lambda>i. if ms ! i then pick (nat (np_int (select ! i))) (hits ! i) else PInf) [0..<n]"
  proof (rule nth_equalityI)
    show "length (mask_put (replicate n PInf) ms (bool_index ms Y)) =
      length (map (\<lambda>i. if ms ! i then pick (nat (np_int (select ! i))) (hits ! i) else PInf) [0..<n])"
      by simp
    fix i assume "i < length (mask_put (replicate n PInf) ms (bool_index ms Y))"
    then have i: "i < n" by simp
    have "length Y = n" by (simp add: Y_def ls lh)
    then have "mask_put (replicate n PInf) ms (bool_index ms Y) =
        map (\<lambda>(x, m, y). if m then y else x) (zip (replicate n PInf) (zip ms Y))"
      using lm by (simp add: mask_put_bool_index)
    then show "mask_put (replicate n PInf) ms (bool_index ms Y) ! i =
      map (\<lambda>i. if ms ! i then pick (nat (np_int (select ! i))) (hits ! i) else PInf) [0..<n] ! i"
      using i lm ls lh by (simp add: Y_def)
  qed
  have "find_intersections get_ABC bundle junk_hits junk_select =
           (if list_all (\<lambda>k. k = 0 \<or> k = 1) (map np_int (bool_index ms select))
            then Inr (map (\<lambda>i. if ms ! i then pick (nat (np_int (select ! i))) (hits ! i) else PInf)
                        [0..<length bundle])
            else Inl ValueError)"
    unfolding fi h m select_def [symmetric]
    by (simp add: np_choose_def chosen put n_def [symmetric])
  then show ?thesis by (simp only: ms_def select_def hits_def)
qed

lemma still_inters_length [simp]:
  "length (still_inters get_ABC bundle select) = length bundle"
  by (simp add: still_inters_def)

lemma hits_array_length [simp]: "length (hits_array get_ABC bundle junk_hits) = length bundle"
  by (simp add: hits_array_def)

lemma still_inters_nth:
  "i < length bundle \<Longrightarrow>
   still_inters get_ABC bundle select ! i =
     (0 \<le> discr (get_ABC (bundle ! i)) \<and> \<not> isnan (select ! i))"
  by (simp add: still_inters_def)

lemma find_intersections_miss_entry:
  assumes "find_intersections get_ABC bundle junk_hits junk_select = Inr ps"
    and "i < length bundle" and "discr (get_ABC (bundle ! i)) < 0"
  shows "ps ! i = PInf"
  using assms
  by (auto simp add: find_intersections_unfold still_inters_nth split: if_splits)

lemma find_intersections_length:
  assumes "find_intersections get_ABC bundle junk_hits junk_select = Inr ps"
  shows "length ps = length bundle"
  using assms by (auto simp add: find_intersections_unfold split: if_splits)

lemma find_intersections_all_miss:
  assumes "\<forall>i<length bundle. discr (get_ABC (bundle ! i)) < 0"
  shows "find_intersections get_ABC bundle junk_hits junk_select =
           Inr (replicate (length bundle) PInf)"
proof -
  define select where "select = select_coords (hits_array get_ABC bundle junk_hits) junk_select"
  have "\<forall>m \<in> set (still_inters get_ABC bundle select). \<not> m"
    using assms by (auto simp add: still_inters_def)
  then have empty: "bool_index (still_inters get_ABC bundle select) select = []"
    by (rule bool_index_all_False)
  have "map (\<lambda>i. if still_inters get_ABC bundle select ! i
                  then pick (nat (np_int (select ! i))) (hits_array get_ABC bundle junk_hits ! i)
                  else PInf) [0..<length bundle] = replicate (length bundle) PInf"
    using assms by (auto simp add: still_inters_nth intro!: nth_equalityI)
  with empty show ?thesis
    unfolding select_def by (simp add: find_intersections_unfold)
qed

lemma find_intersections_returns:
  assumes "\<forall>i<length bundle. 0 \<le> discr (get_ABC (bundle ! i)) \<longrightarrow>
             fl_gt0 (fst (batched_hits get_ABC junk_hits i (bundle ! i))) \<or>
             fl_gt0 (snd (batched_hits get_ABC junk_hits i (bundle ! i)))"
  shows "\<exists>ps. find_intersections get_ABC bundle junk_hits junk_select = Inr ps"
proof -
  define hits where "hits = hits_array get_ABC bundle junk_hits"
  define select where "select = select_coords hits junk_select"
  define ms where "ms = still_inters get_ABC bundle select"
  have len: "length hits = length bundle" "length select = length bundle"
    "length ms = length bundle"
    by (simp_all add: hits_def select_def ms_def)
  have "s = Fin 0 \<or> s = Fin 1" if "s \<in> set (bool_index ms select)" for s
  proof -
    from that have "(True, s) \<in> set (zip ms select)" by (auto simp add: bool_index_def)
    then obtain i where i: "i < length bundle" "ms ! i" "select ! i = s"
      using len by (auto simp add: set_zip)
    then have "0 \<le> discr (get_ABC (bundle ! i))"
      by (simp add: ms_def still_inters_nth)
    with assms i(1) have pos: "fl_gt0 (fst (hits ! i)) \<or> fl_gt0 (snd (hits ! i))"
      by (simp add: hits_def hits_array_def)
    have ih: "i < length hits" using i(1) len by simp
    show ?thesis
    proof (cases "fl_gt0 (fst (hits ! i)) \<and> fl_gt0 (snd (hits ! i))")
      case True
      then show ?thesis using select_coords_nth(1) [OF ih, of junk_select] i(3)
        by (simp add: select_def)
    next
      case False
      with pos have "fl_gt0 (fst (hits ! i)) \<noteq> fl_gt0 (snd (hits ! i))" by blast
      then show ?thesis using select_coords_nth(3) [OF ih, of junk_select] i(3)
        by (simp add: select_def)
    qed
  qed
  then have "np_int s = 0 \<or> np_int s = 1" if "s \<in> set (bool_index ms select)" for s
    using that by fastforce
  then have "list_all (\<lambda>k. k = 0 \<or> k = 1) (map np_int (bool_index ms select))"
    by (simp add: list_all_iff)
  then show ?thesis
    unfolding ms_def select_def hits_def by (simp add: find_intersections_unfold)
qed

text \<open>The scalar loop: what an iteration that returns has appended.\<close>

lemma register_ray_step:
  assumes "register_ray (PyVec c) r bd ry a = Inr a'"
  shows "\<exists>p. params a' = params a @ [p] \<and> (discr (sphere_ABC c r ry) < 0 \<longrightarrow> p = PInf)"
  using assms
  by (cases "sphere_ABC c r ry")
     (auto simp add: register_ray_def discr_def Let_def split: if_splits option.splits)

lemma register_loop_step:
  assumes "register_loop (PyVec c) r bd rays a = Inr a'"
  shows "\<exists>ps. params a' = params a @ ps \<and> length ps = length rays \<and>
           (\<forall>i<length rays. discr (sphere_ABC c r (rays ! i)) < 0 \<longrightarrow> ps ! i = PInf)"
  using assms
proof (induction rays arbitrary: a)
  case Nil
  then show ?case by simp
next
  case (Cons ry rays)
  from Cons.prems obtain a1 where a1: "register_ray (PyVec c) r bd ry a = Inr a1"
    and rest: "register_loop (PyVec c) r bd rays a1 = Inr a'"
    by (auto split: sum.splits)
  from register_ray_step [OF a1] obtain p where
    p: "params a1 = params a @ [p]" "discr (sphere_ABC c r ry) < 0 \<longrightarrow> p = PInf" by blast
  from Cons.IH [OF rest] obtain ps where
    ps: "params a' = params a1 @ ps" "length ps = length rays"
      "\<forall>i<length rays. discr (sphere_ABC c r (rays ! i)) < 0 \<longrightarrow> ps ! i = PInf" by blast
  have "\<forall>i<length (ry # rays). discr (sphere_ABC c r ((ry # rays) ! i)) < 0 \<longrightarrow> (p # ps) ! i = PInf"
    using p(2) ps(3) by (auto simp add: nth_Cons split: nat.splits)
  then show ?case using p(1) ps(1,2) by (intro exI [of _ "p # ps"]) simp
qed

lemma register_incoming_miss_entry:
  assumes "register_incoming self bundle = Inr (self', ps)" and "self_center self = PyVec c"
    and "i < length bundle" and "discr (sphere_ABC c (self_rad self) (bundle ! i)) < 0"
  shows "ps ! i = PInf"
proof -
  from assms(1,2) obtain a' where
    "register_loop (PyVec c) (self_rad self) (self_boundary self) bundle acc0 = Inr a'"
    "ps = params a'"
    by (auto simp add: register_incoming_def acc0_def split: sum.splits)
  with register_loop_step [of c "self_rad self" "self_boundary self" "bundle" acc0 a']
  show ?thesis using assms(3,4) by (auto simp add: acc0_def)
qed

lemma register_loop_all_miss:
  assumes "\<forall>ry \<in> set rays. discr (sphere_ABC c r ry) < 0"
  shows "register_loop (PyVec c) r bd rays a =
           Inr (a\<lparr>params := params a @ replicate (length rays) PInf\<rparr>)"
  using assms
proof (induction rays arbitrary: a)
  case Nil
  show ?case by simp
next
  case (Cons ry rays)
  then have "discr (sphere_ABC c r ry) < 0" by simp
  then have "register_ray (PyVec c) r bd ry a = Inr (a\<lparr>params := params a @ [PInf]\<rparr>)"
    by (cases "sphere_ABC c r ry") (simp add: register_ray_def discr_def)
  then show ?case using Cons by (simp add: replicate_app_Cons_same)
qed

lemma register_incoming_all_miss:
  assumes "self_center self = PyVec c"
    and "\<forall>i<length bundle. discr (sphere_ABC c (self_rad self) (bundle ! i)) < 0"
  shows "register_incoming self bundle =
           Inr (self\<lparr>self_vertices := Some [], self_current_bundle := Some bundle,
                     self_norm := Some []\<rparr>, replicate (length bundle) PInf)"
proof -
  have "\<forall>ry \<in> set bundle. discr (sphere_ABC c (self_rad self) ry) < 0"
    using assms(2) by (auto simp add: in_set_conv_nth)
  then show ?thesis
    by (simp add: register_incoming_def assms(1) register_loop_all_miss)
qed

lemma quadric_roots_ordered:
  fixes A B C :: real
  assumes "0 < A" and "0 \<le> B\<^sup>2 - 4 * A * C"
  shows "(- B - sqrt (B\<^sup>2 - 4 * A * C)) / (2 * A) \<le> (- B + sqrt (B\<^sup>2 - 4 * A * C)) / (2 * A)"
proof -
  have "0 \<le> sqrt (B\<^sup>2 - 4 * A * C)" using assms(2) by simp
  then have "- B - sqrt (B\<^sup>2 - 4 * A * C) \<le> - B + sqrt (B\<^sup>2 - 4 * A * C)" by linarith
  then show ?thesis using assms(1) by (simp add: divide_right_mono)
qed

lemma sphere_hits_quadric:
  assumes "sphere_ABC c r ry = (A, B, C)" and "1 / 10 ^ 10 < A" and "0 \<le> discr (A, B, C)"
  shows "\<exists>t0 t1. sphere_hits c r ry = (Fin t0, Fin t1) \<and> t0 \<le> t1 \<and>
           column_hits (A, B, C) (sqrt (discr (A, B, C))) = (Fin t0, Fin t1)"
proof -
  have A: "0 < A" using assms(2) by (rule less_trans [rotated]) simp
  have d: "0 \<le> B\<^sup>2 - 4 * A * C" using assms(3) by (simp add: discr_def)
  show ?thesis
    using A assms(2) quadric_roots_ordered [OF A d]
    by (simp add: sphere_hits_def assms(1) column_hits_def discr_def fl_div_def)
qed

lemma batched_column:
  assumes i: "i < length bundle"
    and quad: "\<forall>i<length bundle. 1 / 10 ^ 10 < fst (sphere_ABC c r (bundle ! i))"
    and J1: "\<forall>i<length bundle. 0 \<le> discr (sphere_ABC c r (bundle ! i)) \<and>
               where_positive (sphere_hits c r (bundle ! i)) = [] \<longrightarrow> isnan (junk_select i)"
    and J2: "\<forall>i<length bundle. discr (sphere_ABC c r (bundle ! i)) < 0 \<longrightarrow>
               \<not> (fl_gt0 (fst (junk_hits i)) \<and> \<not> fl_gt0 (snd (junk_hits i)))"
  defines "hits \<equiv> hits_array (sphere_ABC c r) bundle junk_hits"
  defines "select \<equiv> select_coords hits junk_select"
  defines "ms \<equiv> still_inters (sphere_ABC c r) bundle select"
  shows "(if ms ! i then pick (nat (np_int (select ! i))) (hits ! i) else PInf) =
           scalar_param c r (\<lambda>p. True) (bundle ! i)"
    and "ms ! i \<longrightarrow> select ! i = Fin 0 \<or> select ! i = Fin 1"
proof -
  have lh: "length hits = length bundle" by (simp add: hits_def)
  have hj: "hits ! j = batched_hits (sphere_ABC c r) junk_hits j (bundle ! j)"
    if "j < length bundle" for j
    using that by (simp add: hits_def hits_array_def)
  have H: "\<forall>t \<in> set hits. \<not> (fl_gt0 (fst t) \<and> \<not> fl_gt0 (snd t))"
  proof
    fix t assume "t \<in> set hits"
    then obtain j where j: "j < length bundle" "t = hits ! j"
      using lh by (auto simp add: in_set_conv_nth)
    obtain A B C where abc: "sphere_ABC c r (bundle ! j) = (A, B, C)"
      by (cases "sphere_ABC c r (bundle ! j)") auto
    show "\<not> (fl_gt0 (fst t) \<and> \<not> fl_gt0 (snd t))"
    proof (cases "discr (A, B, C) < 0")
      case True
      then show ?thesis using J2 j abc by (simp add: hj batched_hits_def)
    next
      case False
      then have d: "0 \<le> discr (A, B, C)" by simp
      have "1 / 10 ^ 10 < A" using quad j(1) abc by auto
      from sphere_hits_quadric [OF abc this d] obtain t0 t1 where
        "column_hits (A, B, C) (sqrt (discr (A, B, C))) = (Fin t0, Fin t1)" "t0 \<le> t1" by blast
      then show ?thesis using j d abc by (simp add: hj batched_hits_def)
    qed
  qed
  obtain A B C where abc: "sphere_ABC c r (bundle ! i) = (A, B, C)"
    by (cases "sphere_ABC c r (bundle ! i)") auto
  have ih: "i < length hits" using i lh by simp
  have msi: "ms ! i = (0 \<le> discr (A, B, C) \<and> \<not> isnan (select ! i))"
    using i by (simp add: ms_def still_inters_nth abc)
  show "(if ms ! i then pick (nat (np_int (select ! i))) (hits ! i) else PInf) =
           scalar_param c r (\<lambda>p. True) (bundle ! i)"
    and "ms ! i \<longrightarrow> select ! i = Fin 0 \<or> select ! i = Fin 1"
  proof (atomize (full), cases "discr (A, B, C) < 0")
    case True
    then show "((if ms ! i then pick (nat (np_int (select ! i))) (hits ! i) else PInf) =
           scalar_param c r (\<lambda>p. True) (bundle ! i)) \<and>
          (ms ! i \<longrightarrow> select ! i = Fin 0 \<or> select ! i = Fin 1)"
      by (simp add: msi scalar_param_def abc)
  next
    case False
    then have d: "0 \<le> discr (A, B, C)" by simp
    have "1 / 10 ^ 10 < A" using quad i abc by auto
    from sphere_hits_quadric [OF abc this d] obtain t0 t1 where
      sh: "sphere_hits c r (bundle ! i) = (Fin t0, Fin t1)" and le: "t0 \<le> t1"
      and ch: "column_hits (A, B, C) (sqrt (discr (A, B, C))) = (Fin t0, Fin t1)" by blast
    have hi: "hits ! i = (Fin t0, Fin t1)" using i d abc ch by (simp add: hj batched_hits_def)
    consider (neither) "t1 \<le> 0" | (both) "0 < t0" | (one) "t0 \<le> 0" "0 < t1"
      by linarith
    then show "((if ms ! i then pick (nat (np_int (select ! i))) (hits ! i) else PInf) =
           scalar_param c r (\<lambda>p. True) (bundle ! i)) \<and>
          (ms ! i \<longrightarrow> select ! i = Fin 0 \<or> select ! i = Fin 1)"
    proof cases
      case neither
      then have np: "\<not> fl_gt0 (fst (hits ! i)) \<and> \<not> fl_gt0 (snd (hits ! i))"
        using le by (simp add: hi)
      have wp: "where_positive (sphere_hits c r (bundle ! i)) = []"
        using neither le by (simp add: sh where_positive_def)
      then have "isnan (junk_select i)" using J1 i d abc by simp
      moreover have "select ! i = junk_select i"
        unfolding select_def using select_coords_nth(2) [OF ih] np by blast
      ultimately show ?thesis using d by (simp add: msi scalar_param_def abc wp)
    next
      case both
      then have bp: "fl_gt0 (fst (hits ! i)) \<and> fl_gt0 (snd (hits ! i))"
        using le by (simp add: hi)
      have si: "select ! i = Fin 0"
        unfolding select_def using select_coords_nth(1) [OF ih] bp by blast
      show ?thesis using both le d
        by (simp add: msi si hi scalar_param_def abc sh where_positive_def selected_index_def
            argmin_def pick_def)
    next
      case one
      then have xp: "fl_gt0 (fst (hits ! i)) \<noteq> fl_gt0 (snd (hits ! i))"
        by (simp add: hi)
      have si: "select ! i = Fin 1"
        unfolding select_def using select_coords_nth(4) [OF ih] xp H
        unfolding hits_def by blast
      show ?thesis using one d
        by (simp add: msi si hi scalar_param_def abc sh where_positive_def selected_index_def
            pick_def)
    qed
  qed
qed

section \<open>Root selection\<close>

lemmas batched_eval_defs =
  find_intersections_def select_coords_def mask_fill_def nonzero_rows_def bool_index_def
  np_choose_def column_hits_def fl_div_def pick_def sphere_ABC_def Let_def

text \<open>The selection rule of the scalar loop, on any pair of roots.\<close>

lemma scalar_selection_policy:
  "\<not> fl_gt0 t0 \<and> \<not> fl_gt0 t1 \<longleftrightarrow> where_positive (t0, t1) = []"
  "fl_gt0 t0 \<Longrightarrow> fl_gt0 t1 \<Longrightarrow>
     pick (selected_index (t0, t1)) (t0, t1) = (if fl_lt t1 t0 then t1 else t0)"
  "fl_gt0 t0 \<Longrightarrow> \<not> fl_gt0 t1 \<Longrightarrow> pick (selected_index (t0, t1)) (t0, t1) = t0"
  "\<not> fl_gt0 t0 \<Longrightarrow> fl_gt0 t1 \<Longrightarrow> pick (selected_index (t0, t1)) (t0, t1) = t1"
  by (simp_all add: where_positive_def selected_index_def argmin_def pick_def)

text \<open>
  C2. Both solvers are meant to report a ray whose two roots are not positive as a
  miss. The scalar solver does. In the batched solver \<^verbatim>\<open>_select_coords\<close> writes the
  NaN sentinel where either root is positive (and overwrites it at once) instead of
  where neither is, so for such a ray the selection keeps what the fresh array held. For
  the unit sphere and the ray from \<open>(2,0,0)\<close> in direction \<open>(1,0,0)\<close>, with roots -3
  and -1: a leftover 0 yields the parameter -3, a leftover 7 makes \<^verbatim>\<open>N.choose\<close> raise,
  and only a leftover NaN yields +infinity.
\<close>

theorem both_roots_nonpositive_not_a_miss:
  "find_intersections (sphere_ABC (0, 0, 0) 1) [mk_ray (2, 0, 0) (1, 0, 0)] junk_hits (\<lambda>i. Fin 0)
     = Inr [Fin (- 3)] \<and>
   find_intersections (sphere_ABC (0, 0, 0) 1) [mk_ray (2, 0, 0) (1, 0, 0)] junk_hits (\<lambda>i. Fin 7)
     = Inl ValueError \<and>
   find_intersections (sphere_ABC (0, 0, 0) 1) [mk_ray (2, 0, 0) (1, 0, 0)] junk_hits (\<lambda>i. NaN)
     = Inr [PInf] \<and>
   sphere_hits (0, 0, 0) 1 (mk_ray (2, 0, 0) (1, 0, 0)) = (Fin (- 3), Fin (- 1)) \<and>
   (\<exists>self'. register_incoming unit_sphere [mk_ray (2, 0, 0) (1, 0, 0)] = Inr (self', [PInf]))"
  by (simp add: batched_eval_defs sphere_hits_def scalar_eval_defs unit_sphere_def)

text \<open>
  The unwritten root pairs matter as well. \<^verbatim>\<open>N.nonzero(...)[0]\<close> lists the row indices
  in row-major order, all zeros first, and the assignment hands them to the one-positive
  columns from left to right. A column without a real solution whose leftover pair
  reads as (positive, not positive) contributes a zero, and a real column to its left
  receives it: below, the ray from the center of the unit sphere gets the root -1
  where the scalar solver returns 1.
\<close>

lemma unwritten_roots_reorder_selection:
  "find_intersections (sphere_ABC (0, 0, 0) 1)
     [mk_ray (0, 0, 0) (0, 0, 1), mk_ray (0, 0, 5) (1, 0, 0)]
     (\<lambda>i. (Fin 1, Fin (- 1))) junk_select = Inr [Fin (- 1), PInf] \<and>
   (\<exists>self'. register_incoming unit_sphere
      [mk_ray (0, 0, 0) (0, 0, 1), mk_ray (0, 0, 5) (1, 0, 0)] = Inr (self', [Fin 1, PInf]))"
  by (simp add: batched_eval_defs scalar_eval_defs unit_sphere_def)

section \<open>Rays without a real solution\<close>

text \<open>
  C3. A ray whose discriminant is negative gets +infinity and is no error, in both
  solvers: a bundle made of such rays only is returned with +infinity in every entry;
  whenever a call returns, the entry of each such ray is +infinity; the scalar solver
  returns for every bundle once a boundary is set; and the batched solver returns for
  every bundle in which each ray with a real solution has a positive root. (The surface
  has a center; with none, indexing it raises for any non-empty bundle.)
\<close>

theorem negative_discriminant_is_miss:
  assumes "self_center self = PyVec c"
  shows
    "((\<forall>i<length bundle. discr (sphere_ABC c (self_rad self) (bundle ! i)) < 0) \<longrightarrow>
        register_incoming self bundle =
          Inr (self\<lparr>self_vertices := Some [], self_current_bundle := Some bundle,
                    self_norm := Some []\<rparr>, replicate (length bundle) PInf)) \<and>
     ((\<forall>i<length bundle. discr (get_ABC (bundle ! i)) < 0) \<longrightarrow>
        find_intersections get_ABC bundle junk_hits junk_select =
          Inr (replicate (length bundle) PInf)) \<and>
     (\<forall>i self' ps. i < length bundle \<and>
        discr (sphere_ABC c (self_rad self) (bundle ! i)) < 0 \<and>
        register_incoming self bundle = Inr (self', ps) \<longrightarrow> ps ! i = PInf) \<and>
     (\<forall>i ps. i < length bundle \<and> discr (get_ABC (bundle ! i)) < 0 \<and>
        find_intersections get_ABC bundle junk_hits junk_select = Inr ps \<longrightarrow> ps ! i = PInf) \<and>
     (self_boundary self \<noteq> None \<longrightarrow>
        (\<exists>self' ps. register_incoming self bundle = Inr (self', ps) \<and>
           length ps = length bundle)) \<and>
     ((\<forall>i<length bundle. 0 \<le> discr (get_ABC (bundle ! i)) \<longrightarrow>
          fl_gt0 (fst (batched_hits get_ABC junk_hits i (bundle ! i))) \<or>
          fl_gt0 (snd (batched_hits get_ABC junk_hits i (bundle ! i)))) \<longrightarrow>
        (\<exists>ps. find_intersections get_ABC bundle junk_hits junk_select = Inr ps \<and>
           length ps = length bundle))"
proof (intro conjI impI allI)
  assume "\<forall>i<length bundle. discr (sphere_ABC c (self_rad self) (bundle ! i)) < 0"
  then show "register_incoming self bundle =
          Inr (self\<lparr>self_vertices := Some [], self_current_bundle := Some bundle,
                    self_norm := Some []\<rparr>, replicate (length bundle) PInf)"
    using assms by (rule register_incoming_all_miss [rotated])
next
  assume "\<forall>i<length bundle. discr (get_ABC (bundle ! i)) < 0"
  then show "find_intersections get_ABC bundle junk_hits junk_select =
          Inr (replicate (length bundle) PInf)"
    by (rule find_intersections_all_miss)
next
  fix i self' ps
  assume "i < length bundle \<and> discr (sphere_ABC c (self_rad self) (bundle ! i)) < 0 \<and>
        register_incoming self bundle = Inr (self', ps)"
  then show "ps ! i = PInf"
    using register_incoming_miss_entry [OF _ assms] by blast
next
  fix i ps
  assume "i < length bundle \<and> discr (get_ABC (bundle ! i)) < 0 \<and>
        find_intersections get_ABC bundle junk_hits junk_select = Inr ps"
  then show "ps ! i = PInf"
    using find_intersections_miss_entry by blast
next
  assume "self_boundary self \<noteq> None"
  then obtain inb where "self_boundary self = Some inb" by auto
  from register_incoming_params [OF assms this, of "bundle"]
  show "\<exists>self' ps. register_incoming self bundle = Inr (self', ps) \<and>
           length ps = length bundle"
    by auto
next
  assume "\<forall>i<length bundle. 0 \<le> discr (get_ABC (bundle ! i)) \<longrightarrow>
          fl_gt0 (fst (batched_hits get_ABC junk_hits i (bundle ! i))) \<or>
          fl_gt0 (snd (batched_hits get_ABC junk_hits i (bundle ! i)))"
  from find_intersections_returns [OF this]
  show "\<exists>ps. find_intersections get_ABC bundle junk_hits junk_select = Inr ps \<and>
           length ps = length bundle"
    using find_intersections_length by blast
qed

lemma miss_discr:
  "discr (sphere_ABC (0, 0, 0) 1 (mk_ray (0, 0, 5) (1, 0, 0))) < 0"
  "discr (sphere_ABC (0, 0, 0) 1 (mk_ray (0, 3, 0) (0, 0, 1))) < 0"
  by (simp_all add: discr_def sphere_ABC_def)

theorem negative_discriminant_is_miss_witness:
  "self_center unit_sphere = PyVec (0, 0, 0) \<and>
   discr (sphere_ABC (0, 0, 0) 1 (mk_ray (0, 0, 5) (1, 0, 0))) < 0 \<and>
   discr (sphere_ABC (0, 0, 0) 1 (mk_ray (0, 3, 0) (0, 0, 1))) < 0 \<and>
   register_incoming unit_sphere [mk_ray (0, 0, 5) (1, 0, 0), mk_ray (0, 3, 0) (0, 0, 1)] =
     Inr (unit_sphere\<lparr>self_vertices := Some [],
            self_current_bundle := Some [mk_ray (0, 0, 5) (1, 0, 0), mk_ray (0, 3, 0) (0, 0, 1)],
            self_norm := Some []\<rparr>, [PInf, PInf]) \<and>
   find_intersections (sphere_ABC (0, 0, 0) 1)
     [mk_ray (0, 0, 5) (1, 0, 0), mk_ray (0, 3, 0) (0, 0, 1)]
     (\<lambda>i. (Fin 1, Fin (- 1))) (\<lambda>i. Fin 7) = Inr [PInf, PInf]"
proof -
  have c: "self_center unit_sphere = PyVec (0, 0, 0)" and r: "self_rad unit_sphere = 1"
    by (simp_all add: unit_sphere_def)
  show ?thesis
    using negative_discriminant_is_miss [OF c,
        of "[mk_ray (0, 0, 5) (1, 0, 0), mk_ray (0, 3, 0) (0, 0, 1)]"
           "sphere_ABC (0, 0, 0) 1" "\<lambda>i. (Fin 1, Fin (- 1))" "\<lambda>i. Fin 7"]
      miss_discr c
    by (simp add: r All_less_Suc numeral_2_eq_2)
qed

section \<open>Batched against scalar\<close>

lemma planar_ABC:
  "sphere_ABC (0, 0, 0) 1 (mk_ray (1 / 2, 0, 0) (1 / 1000000, 0, 0)) =
     (1 / 1000000000000, 1 / 1000000, - 3 / 4)"
  by (simp add: sphere_ABC_def power2_eq_square)

lemma planar_sqrt:
  "sqrt ((1 / 1000000)\<^sup>2 - 4 * (1 / 1000000000000) * (- 3 / 4)) = 2 / 1000000"
  by (rule real_sqrt_unique) (simp_all add: power2_eq_square)

lemma planar_register_ray:
  "register_ray (PyVec (0, 0, 0)) 1 (Some (\<lambda>p. True)) (mk_ray (1 / 2, 0, 0) (1 / 1000000, 0, 0)) a =
     Inr (a\<lparr>params := params a @ [Fin 500000],
            vertices := vertices a @ [Some (Fin 1, Fin 0, Fin 0)],
            norm := norm a @ [(Fin (- 1), Fin 0, Fin 0)]\<rparr>)"
  unfolding register_ray_def pyval.case planar_ABC prod.case planar_sqrt
  by (simp add: fl_div_def where_positive_def argmin_def pick_def point_at_def vdot_def
      fv_sub_def lift_def fl_sub_def Let_def power2_eq_square)

lemma planar_find_intersections:
  "find_intersections (sphere_ABC (0, 0, 0) 1) [mk_ray (1 / 2, 0, 0) (1 / 1000000, 0, 0)]
     junk_hits junk_select = Inr [Fin 750000]"
  unfolding find_intersections_def list.map planar_ABC prod.case
  by (simp add: select_coords_def mask_fill_def nonzero_rows_def bool_index_def
      np_choose_def column_hits_def fl_div_def pick_def Let_def power2_eq_square)

text \<open>
  C1, as stated, fails where the batched solver treats a ray as near planar. For the
  unit sphere and the ray from \<open>(1/2,0,0)\<close> with direction \<open>(1e-6,0,0)\<close> the
  coefficient \<open>A\<close> is \<open>1e-12\<close>, below the tolerance: the scalar solver returns the root
  500000 of the quadratic, the batched solver the solution 750000 of the linear equation,
  whatever the unwritten storage holds.
\<close>

theorem near_planar_counterexample:
  "fst (sphere_ABC (0, 0, 0) 1 (mk_ray (1 / 2, 0, 0) (1 / 1000000, 0, 0))) \<le> 1 / 10 ^ 10 \<and>
   register_incoming unit_sphere [mk_ray (1 / 2, 0, 0) (1 / 1000000, 0, 0)] =
     Inr (unit_sphere\<lparr>self_vertices := Some [Some (Fin 1, Fin 0, Fin 0)],
            self_current_bundle := Some [mk_ray (1 / 2, 0, 0) (1 / 1000000, 0, 0)],
            self_norm := Some [(Fin (- 1), Fin 0, Fin 0)]\<rparr>, [Fin 500000]) \<and>
   find_intersections (sphere_ABC (0, 0, 0) 1) [mk_ray (1 / 2, 0, 0) (1 / 1000000, 0, 0)]
     (\<lambda>i. (NaN, NaN)) (\<lambda>i. NaN) = Inr [Fin 750000]"
  by (simp add: planar_find_intersections planar_ABC register_incoming_def unit_sphere_def
      planar_register_ray)

text \<open>
  C1, amended. Take a sphere whose boundary accepts every point and a bundle in which
  every ray has \<open>|d|\<^sup>2\<close> above the near-planar tolerance \<open>1e-10\<close>. Then the scalar
  solver and the batched solver, given the coefficients of the scalar loop as its
  \<^verbatim>\<open>get_ABC\<close>, both return, with the
  same parameter list (so with the same hits and misses), as long as the storage the
  batched solver left unwritten does not reach its result: the selection slot of a ray
  with a real solution and no positive root reads as NaN, and the root pair of a ray
  with a negative discriminant does not read as (positive, not positive).
\<close>

theorem batched_matches_scalar:
  assumes "self_center self = PyVec c" and "self_boundary self = Some (\<lambda>p. True)"
    and "r = self_rad self"
    and quad: "\<forall>i<length bundle. 1 / 10 ^ 10 < fst (sphere_ABC c r (bundle ! i))"
    and J1: "\<forall>i<length bundle. 0 \<le> discr (sphere_ABC c r (bundle ! i)) \<and>
               where_positive (sphere_hits c r (bundle ! i)) = [] \<longrightarrow> isnan (junk_select i)"
    and J2: "\<forall>i<length bundle. discr (sphere_ABC c r (bundle ! i)) < 0 \<longrightarrow>
               \<not> (fl_gt0 (fst (junk_hits i)) \<and> \<not> fl_gt0 (snd (junk_hits i)))"
  shows "\<exists>self' ps. register_incoming self bundle = Inr (self', ps) \<and>
           find_intersections (sphere_ABC c r) bundle junk_hits junk_select = Inr ps \<and>
           length ps = length bundle"
proof -
  define hits where "hits = hits_array (sphere_ABC c r) bundle junk_hits"
  define select where "select = select_coords hits junk_select"
  define ms where "ms = still_inters (sphere_ABC c r) bundle select"
  have col1: "(if ms ! i then pick (nat (np_int (select ! i))) (hits ! i) else PInf) =
      scalar_param c r (\<lambda>p. True) (bundle ! i)" if "i < length bundle" for i
    unfolding ms_def select_def hits_def by (rule batched_column(1) [OF that quad J1 J2])
  have col2: "ms ! i \<longrightarrow> select ! i = Fin 0 \<or> select ! i = Fin 1" if "i < length bundle" for i
    unfolding ms_def select_def hits_def by (rule batched_column(2) [OF that quad J1 J2])
  obtain self' where scalar:
    "register_incoming self bundle = Inr (self', map (scalar_param c r (\<lambda>p. True)) bundle)"
    using register_incoming_params [OF assms(1,2)] assms(3) by blast
  have len: "length select = length bundle" "length ms = length bundle"
    by (simp_all add: select_def hits_def ms_def)
  have in_range: "s = Fin 0 \<or> s = Fin 1" if "s \<in> set (bool_index ms select)" for s
  proof -
    from that have "(True, s) \<in> set (zip ms select)" by (auto simp add: bool_index_def)
    then obtain i where i: "i < length bundle" and mi: "ms ! i" and si: "select ! i = s"
      using len by (auto simp add: set_zip)
    from col2 [OF i] mi si show ?thesis by simp
  qed
  have "np_int s = 0 \<or> np_int s = 1" if "s \<in> set (bool_index ms select)" for s
  proof -
    from in_range [OF that] show ?thesis
    proof
      assume "s = Fin 0" then show ?thesis by simp
    next
      assume "s = Fin 1" then show ?thesis by simp
    qed
  qed
  then have ok: "list_all (\<lambda>k. k = 0 \<or> k = 1) (map np_int (bool_index ms select))"
    by (simp add: list_all_iff)
  have eq: "map (\<lambda>i. if ms ! i then pick (nat (np_int (select ! i))) (hits ! i) else PInf)
          [0..<length bundle] = map (scalar_param c r (\<lambda>p. True)) bundle"
  proof (rule nth_equalityI)
    show "length (map (\<lambda>i. if ms ! i then pick (nat (np_int (select ! i))) (hits ! i) else PInf)
          [0..<length bundle]) = length (map (scalar_param c r (\<lambda>p. True)) bundle)"
      by simp
  next
    fix i
    assume "i < length (map (\<lambda>i. if ms ! i then pick (nat (np_int (select ! i))) (hits ! i)
          else PInf) [0..<length bundle])"
    then have i: "i < length bundle" by simp
    from col1 [OF i] i
    show "map (\<lambda>i. if ms ! i then pick (nat (np_int (select ! i))) (hits ! i) else PInf)
          [0..<length bundle] ! i = map (scalar_param c r (\<lambda>p. True)) bundle ! i"
      by (simp split: if_splits)
  qed
  from ok eq have "find_intersections (sphere_ABC c r) bundle junk_hits junk_select =
      Inr (map (scalar_param c r (\<lambda>p. True)) bundle)"
    unfolding ms_def select_def hits_def by (simp add: find_intersections_unfold)
  with scalar show ?thesis by simp
qed

lemma three_rays_scalar:
  "\<exists>self'. register_incoming unit_sphere
      [mk_ray (0, 0, 5) (0, 0, - 1), mk_ray (0, 0, 5) (1, 0, 0), mk_ray (2, 0, 0) (1, 0, 0)] =
     Inr (self', [Fin 4, PInf, PInf])"
  by (simp add: scalar_eval_defs unit_sphere_def)

theorem batched_matches_scalar_witness:
  "(\<exists>self'. register_incoming unit_sphere
      [mk_ray (0, 0, 5) (0, 0, - 1), mk_ray (0, 0, 5) (1, 0, 0), mk_ray (2, 0, 0) (1, 0, 0)] =
     Inr (self', [Fin 4, PInf, PInf])) \<and>
   find_intersections (sphere_ABC (0, 0, 0) 1)
      [mk_ray (0, 0, 5) (0, 0, - 1), mk_ray (0, 0, 5) (1, 0, 0), mk_ray (2, 0, 0) (1, 0, 0)]
      (\<lambda>i. (NaN, NaN)) (\<lambda>i. NaN) = Inr [Fin 4, PInf, PInf]"
proof -
  have c: "self_center unit_sphere = PyVec (0, 0, 0)"
    and b: "self_boundary unit_sphere = Some (\<lambda>p. True)"
    and r: "1 = self_rad unit_sphere"
    by (simp_all add: unit_sphere_def)
  have quad: "\<forall>i<length [mk_ray (0, 0, 5) (0, 0, - 1), mk_ray (0, 0, 5) (1, 0, 0),
                          mk_ray (2, 0, 0) (1, 0, 0)].
      1 / 10 ^ 10 < fst (sphere_ABC (0, 0, 0) 1
        ([mk_ray (0, 0, 5) (0, 0, - 1), mk_ray (0, 0, 5) (1, 0, 0),
          mk_ray (2, 0, 0) (1, 0, 0)] ! i))"
    by (simp add: All_less_Suc sphere_ABC_def)
  from batched_matches_scalar [OF c b r quad, of "\<lambda>i. NaN" "\<lambda>i. (NaN, NaN)"]
  obtain self' ps where
    "register_incoming unit_sphere
      [mk_ray (0, 0, 5) (0, 0, - 1), mk_ray (0, 0, 5) (1, 0, 0), mk_ray (2, 0, 0) (1, 0, 0)] =
       Inr (self', ps)"
    "find_intersections (sphere_ABC (0, 0, 0) 1)
      [mk_ray (0, 0, 5) (0, 0, - 1), mk_ray (0, 0, 5) (1, 0, 0), mk_ray (2, 0, 0) (1, 0, 0)]
      (\<lambda>i. (NaN, NaN)) (\<lambda>i. NaN) = Inr ps"
    by auto
  with three_rays_scalar show ?thesis by auto
qed

end
